theory Spec2Isabelle
  imports
    Complex_Main
    "HOL-Library.Multiset"
    "HOL-Library.Char_ord"
    "HOL-Library.List_Lexorder"
    "HOL-Library.Product_Lexorder"
begin

section \<open>The entity store read by \<open>cbv/views.py\<close>\<close>

text \<open>
  The views query four Django models, \<open>Project\<close>, \<open>ProjectVersion\<close>, \<open>Module\<close> and
  \<open>Klass\<close>, through the lookups \<open>name\<close>, \<open>module__name\<close>,
  \<open>module__project_version__version_number\<close>,
  \<open>module__project_version__sortable_version_number\<close> and
  \<open>module__project_version__project__name\<close>. A row is modelled as the object the view
  receives after \<open>select_related\<close>: it carries its primary key and its parent row, so
  that every Klass has one Module, every Module one ProjectVersion and every
  ProjectVersion one Project. The sortable version number is a key that is compared,
  never parsed; it is a natural number here.
\<close>

record project =
  project_pk :: nat
  project_name :: string

record project_version =
  pv_pk :: nat
  pv_project :: project
  version_number :: string
  sortable_version_number :: nat

record module =
  module_pk :: nat
  module_project_version :: project_version
  mod_name :: string

record klass =
  klass_pk :: nat
  klass_module :: module
  klass_name :: string

text \<open>
  The tables, each in the order in which the store returns its rows when a query gives
  no \<open>order_by\<close>.
\<close>

record store =
  project_versions :: "project_version list"
  modules :: "module list"
  klasses :: "klass list"

text \<open>The keyword arguments that the URL route hands to a view: \<open>self.kwargs\<close>.\<close>

record kwargs =
  kw_package :: string
  kw_version :: string
  kw_module :: string
  kw_klass :: string

text \<open>
  The exceptions that cross the views. \<open>DoesNotExist\<close> and \<open>MultipleObjectsReturned\<close>
  are attributes of a model class, and an \<open>except self.model.DoesNotExist\<close> clause
  catches the exception of that one model only.
\<close>

datatype model = ProjectVersionModel | ModuleModel | KlassModel

datatype exn =
    DoesNotExist model
  | MultipleObjectsReturned model
  | Http404
  | AttributeError

subsection \<open>The query interface\<close>

text \<open>
  \<open>QuerySet.get()\<close> returns the row when the query has exactly one, raises
  \<open>DoesNotExist\<close> when it has none and \<open>MultipleObjectsReturned\<close> when it has more.
\<close>

fun qs_get :: "model \<Rightarrow> 'a list \<Rightarrow> exn + 'a" where
  "qs_get m [] = Inl (DoesNotExist m)"
| "qs_get m [x] = Inr x"
| "qs_get m (x # y # rest) = Inl (MultipleObjectsReturned m)"

text \<open>
  The \<open>iexact\<close> lookup is equality up to the case of the letters; the letters folded are
  the ASCII ones.
\<close>

definition lower_char :: "char \<Rightarrow> char" where
  "lower_char c =
     (case map_of (zip ''ABCDEFGHIJKLMNOPQRSTUVWXYZ'' ''abcdefghijklmnopqrstuvwxyz'') c of
        None \<Rightarrow> c
      | Some l \<Rightarrow> l)"

definition iexact :: "string \<Rightarrow> string \<Rightarrow> bool" where
  "iexact stored given = (map lower_char stored = map lower_char given)"

text \<open>Two model instances are equal (\<open>==\<close>) when their primary keys are.\<close>

definition pv_eq :: "project_version \<Rightarrow> project_version \<Rightarrow> bool" where
  "pv_eq a b = (pv_pk a = pv_pk b)"

definition module_eq :: "module \<Rightarrow> module \<Rightarrow> bool" where
  "module_eq a b = (module_pk a = module_pk b)"

subsection \<open>URL reversing\<close>

text \<open>
  The URL configuration is not part of the views. \<open>reverse\<close> is the router's function
  from a route name and keyword arguments to a path; \<open>klass_url\<close> and \<open>module_url\<close>
  are the paths it gives to a class and to a module.
\<close>

record urlconf =
  reverse :: "string \<Rightarrow> (string \<rightharpoonup> string) \<Rightarrow> string"
  klass_url :: "string \<Rightarrow> string \<Rightarrow> string \<Rightarrow> string \<Rightarrow> string"
  module_url :: "string \<Rightarrow> string \<Rightarrow> string \<Rightarrow> string"

text \<open>
  Modelled from the spec: \<open>Klass.get_absolute_url\<close> of \<open>cbv/models.py\<close>, which is not
  among the sources. The canonical URL of a class is the path derived from its own
  package name, version number, module name and class name.
\<close>

definition Klass_get_absolute_url :: "urlconf \<Rightarrow> klass \<Rightarrow> string" where
  "Klass_get_absolute_url conf k =
     klass_url conf
       (project_name (pv_project (module_project_version (klass_module k))))
       (version_number (module_project_version (klass_module k)))
       (mod_name (klass_module k))
       (klass_name k)"

text \<open>
  Modelled from the spec: \<open>Module.get_absolute_url\<close> of \<open>cbv/models.py\<close>, which is not
  among the sources. The canonical URL of a module is derived from its own package name,
  version number and module name.
\<close>

definition Module_get_absolute_url :: "urlconf \<Rightarrow> module \<Rightarrow> string" where
  "Module_get_absolute_url conf m =
     module_url conf
       (project_name (pv_project (module_project_version m)))
       (version_number (module_project_version m))
       (mod_name m)"

section \<open>The views\<close>

text \<open>
  A view method reads the store and reads and writes the attributes of the view
  instance \<open>self\<close>. Both are in the state that a method takes and returns.
  \<open>as_view\<close> is the state at the start of a request: Django makes a new instance for
  every request, whose \<open>push_state_url\<close> is the class attribute \<open>None\<close> and whose other
  attributes are not set yet.
\<close>

record world =
  db :: store
  self_push_state_url :: "string option"
  self_project_version :: "project_version option"

definition as_view :: "store \<Rightarrow> world" where
  "as_view s =
     \<lparr>db = s, self_push_state_url = None, self_project_version = None\<rparr>"

subsection \<open>KlassDetailView\<close>

record klass_context =
  kc_object :: klass
  kc_push_state_url :: "string option"

definition klass_precise :: "kwargs \<Rightarrow> klass \<Rightarrow> bool" where
  "klass_precise kw k \<longleftrightarrow>
     klass_name k = kw_klass kw \<and>
     mod_name (klass_module k) = kw_module kw \<and>
     version_number (module_project_version (klass_module k)) = kw_version kw \<and>
     project_name (pv_project (module_project_version (klass_module k))) = kw_package kw"

definition klass_fuzzy :: "kwargs \<Rightarrow> klass \<Rightarrow> bool" where
  "klass_fuzzy kw k \<longleftrightarrow>
     iexact (klass_name k) (kw_klass kw) \<and>
     iexact (mod_name (klass_module k)) (kw_module kw) \<and>
     iexact (version_number (module_project_version (klass_module k))) (kw_version kw) \<and>
     iexact (project_name (pv_project (module_project_version (klass_module k))))
       (kw_package kw)"

definition KlassDetailView_get_precise_object :: "kwargs \<Rightarrow> world \<Rightarrow> exn + klass" where
  "KlassDetailView_get_precise_object kw w =
     qs_get KlassModel (filter (klass_precise kw) (klasses (db w)))"

definition KlassDetailView_get_fuzzy_object :: "kwargs \<Rightarrow> world \<Rightarrow> exn + klass" where
  "KlassDetailView_get_fuzzy_object kw w =
     qs_get KlassModel (filter (klass_fuzzy kw) (klasses (db w)))"

definition KlassDetailView_get_object ::
  "urlconf \<Rightarrow> kwargs \<Rightarrow> world \<Rightarrow> (exn + klass) \<times> world" where
  "KlassDetailView_get_object conf kw w =
     (case KlassDetailView_get_precise_object kw w of
        Inr obj \<Rightarrow> (Inr obj, w)
      | Inl e \<Rightarrow>
          if e = DoesNotExist KlassModel then
            (case KlassDetailView_get_fuzzy_object kw w of
               Inr obj \<Rightarrow>
                 (Inr obj, w\<lparr>self_push_state_url := Some (Klass_get_absolute_url conf obj)\<rparr>)
             | Inl e' \<Rightarrow>
                 if e' = DoesNotExist KlassModel then (Inl Http404, w) else (Inl e', w))
          else (Inl e, w))"

definition KlassDetailView_get_context_data :: "klass \<Rightarrow> world \<Rightarrow> klass_context" where
  "KlassDetailView_get_context_data obj w =
     \<lparr>kc_object = obj, kc_push_state_url = self_push_state_url w\<rparr>"

text \<open>
  \<open>DetailView.get\<close>: the object is looked up, then the context is built from it.
\<close>

definition KlassDetailView_get ::
  "urlconf \<Rightarrow> kwargs \<Rightarrow> world \<Rightarrow> (exn + klass_context) \<times> world" where
  "KlassDetailView_get conf kw w =
     (case KlassDetailView_get_object conf kw w of
        (Inl e, w') \<Rightarrow> (Inl e, w')
      | (Inr obj, w') \<Rightarrow> (Inr (KlassDetailView_get_context_data obj w'), w'))"

subsection \<open>Version selection and the latest class of a name\<close>

text \<open>
  Modelled from the spec: \<open>ProjectVersion.objects.get_latest\<close> of \<open>cbv/models.py\<close>,
  which is not among the sources. It filters the versions of the package of that exact
  name, orders them by descending sortable version number, returns the first and fails
  when there is none. The failure is \<open>ProjectVersion.DoesNotExist\<close>, the exception
  that \<open>VersionDetailView.get\<close> catches around it.
\<close>

definition get_latest :: "store \<Rightarrow> string \<Rightarrow> exn + project_version" where
  "get_latest s name =
     (case sort_key (\<lambda>v. - int (sortable_version_number v))
             (filter (\<lambda>v. project_name (pv_project v) = name) (project_versions s)) of
        [] \<Rightarrow> Inl (DoesNotExist ProjectVersionModel)
      | v # rest \<Rightarrow> Inr v)"

text \<open>
  Modelled from the spec: \<open>Klass.objects.get_latest_for_name\<close> of \<open>cbv/models.py\<close>,
  which is not among the sources. It finds the class of the given name in the latest
  version of the named package, both names compared without case, takes the first such
  class and fails with \<open>Klass.DoesNotExist\<close> when there is none.
\<close>

definition get_latest_for_name :: "store \<Rightarrow> string \<Rightarrow> string \<Rightarrow> exn + klass" where
  "get_latest_for_name s klass_nm project_nm =
     (case sort_key (\<lambda>v. - int (sortable_version_number v))
             (filter (\<lambda>v. iexact (project_name (pv_project v)) project_nm)
                (project_versions s)) of
        [] \<Rightarrow> Inl (DoesNotExist KlassModel)
      | latest # rest \<Rightarrow>
          (case filter (\<lambda>k. iexact (klass_name k) klass_nm \<and>
                             pv_eq (module_project_version (klass_module k)) latest)
                  (klasses s) of
             [] \<Rightarrow> Inl (DoesNotExist KlassModel)
           | k # others \<Rightarrow> Inr k))"

subsection \<open>LatestKlassDetailView\<close>

definition LatestKlassDetailView_get_precise_object :: "kwargs \<Rightarrow> world \<Rightarrow> exn + klass" where
  "LatestKlassDetailView_get_precise_object kw w = Inl (DoesNotExist KlassModel)"

definition LatestKlassDetailView_get_fuzzy_object :: "kwargs \<Rightarrow> world \<Rightarrow> exn + klass" where
  "LatestKlassDetailView_get_fuzzy_object kw w =
     get_latest_for_name (db w) (kw_klass kw) (kw_package kw)"

definition LatestKlassDetailView_get_object ::
  "urlconf \<Rightarrow> kwargs \<Rightarrow> world \<Rightarrow> (exn + klass) \<times> world" where
  "LatestKlassDetailView_get_object conf kw w =
     (case LatestKlassDetailView_get_precise_object kw w of
        Inr obj \<Rightarrow> (Inr obj, w)
      | Inl e \<Rightarrow>
          if e = DoesNotExist KlassModel then
            (case LatestKlassDetailView_get_fuzzy_object kw w of
               Inr obj \<Rightarrow>
                 (Inr obj, w\<lparr>self_push_state_url := Some (Klass_get_absolute_url conf obj)\<rparr>)
             | Inl e' \<Rightarrow>
                 if e' = DoesNotExist KlassModel then (Inl Http404, w) else (Inl e', w))
          else (Inl e, w))"

definition LatestKlassDetailView_get ::
  "urlconf \<Rightarrow> kwargs \<Rightarrow> world \<Rightarrow> (exn + klass_context) \<times> world" where
  "LatestKlassDetailView_get conf kw w =
     (case LatestKlassDetailView_get_object conf kw w of
        (Inl e, w') \<Rightarrow> (Inl e, w')
      | (Inr obj, w') \<Rightarrow> (Inr (KlassDetailView_get_context_data obj w'), w'))"

subsection \<open>ModuleDetailView\<close>

record module_context =
  mc_object :: module
  mc_project_version :: project_version
  mc_klass_list :: "klass list"
  mc_push_state_url :: "string option"

definition pv_fuzzy :: "kwargs \<Rightarrow> project_version \<Rightarrow> bool" where
  "pv_fuzzy kw v \<longleftrightarrow>
     iexact (version_number v) (kw_version kw) \<and>
     iexact (project_name (pv_project v)) (kw_package kw)"

definition module_precise :: "kwargs \<Rightarrow> project_version \<Rightarrow> module \<Rightarrow> bool" where
  "module_precise kw pv m \<longleftrightarrow>
     mod_name m = kw_module kw \<and> pv_eq (module_project_version m) pv"

definition module_fuzzy :: "kwargs \<Rightarrow> module \<Rightarrow> bool" where
  "module_fuzzy kw m \<longleftrightarrow>
     iexact (mod_name m) (kw_module kw) \<and>
     iexact (version_number (module_project_version m)) (kw_version kw) \<and>
     iexact (project_name (pv_project (module_project_version m))) (kw_package kw)"

text \<open>Reading \<open>self.project_version\<close> before \<open>get\<close> has set it is an AttributeError.\<close>

definition ModuleDetailView_get_precise_object :: "kwargs \<Rightarrow> world \<Rightarrow> exn + module" where
  "ModuleDetailView_get_precise_object kw w =
     (case self_project_version w of
        None \<Rightarrow> Inl AttributeError
      | Some pv \<Rightarrow> qs_get ModuleModel (filter (module_precise kw pv) (modules (db w))))"

definition ModuleDetailView_get_fuzzy_object :: "kwargs \<Rightarrow> world \<Rightarrow> exn + module" where
  "ModuleDetailView_get_fuzzy_object kw w =
     qs_get ModuleModel (filter (module_fuzzy kw) (modules (db w)))"

definition ModuleDetailView_get_object ::
  "urlconf \<Rightarrow> kwargs \<Rightarrow> world \<Rightarrow> (exn + module) \<times> world" where
  "ModuleDetailView_get_object conf kw w =
     (case ModuleDetailView_get_precise_object kw w of
        Inr obj \<Rightarrow> (Inr obj, w)
      | Inl e \<Rightarrow>
          if e = DoesNotExist ModuleModel then
            (case ModuleDetailView_get_fuzzy_object kw w of
               Inr obj \<Rightarrow>
                 (Inr obj, w\<lparr>self_push_state_url := Some (Module_get_absolute_url conf obj)\<rparr>)
             | Inl e' \<Rightarrow>
                 if e' = DoesNotExist ModuleModel then (Inl Http404, w) else (Inl e', w))
          else (Inl e, w))"

definition ModuleDetailView_get_context_data :: "module \<Rightarrow> world \<Rightarrow> exn + module_context" where
  "ModuleDetailView_get_context_data obj w =
     (case self_project_version w of
        None \<Rightarrow> Inl AttributeError
      | Some pv \<Rightarrow>
          Inr \<lparr>mc_object = obj,
               mc_project_version = pv,
               mc_klass_list = filter (\<lambda>k. module_eq (klass_module k) obj) (klasses (db w)),
               mc_push_state_url = self_push_state_url w\<rparr>)"

text \<open>
  \<open>ModuleDetailView.get\<close> looks the version up without case first, then runs
  \<open>DetailView.get\<close>: the object, then the context.
\<close>

definition ModuleDetailView_get ::
  "urlconf \<Rightarrow> kwargs \<Rightarrow> world \<Rightarrow> (exn + module_context) \<times> world" where
  "ModuleDetailView_get conf kw w =
     (case qs_get ProjectVersionModel (filter (pv_fuzzy kw) (project_versions (db w))) of
        Inl e \<Rightarrow>
          if e = DoesNotExist ProjectVersionModel then (Inl Http404, w) else (Inl e, w)
      | Inr pv \<Rightarrow>
          (case ModuleDetailView_get_object conf kw (w\<lparr>self_project_version := Some pv\<rparr>) of
             (Inl e, w') \<Rightarrow> (Inl e, w')
           | (Inr obj, w') \<Rightarrow> (ModuleDetailView_get_context_data obj w', w')))"

subsection \<open>VersionDetailView and HomeView\<close>

record version_context =
  object_list :: "klass list"
  projectversion :: project_version

definition VersionDetailView_get_project_version ::
  "kwargs \<Rightarrow> world \<Rightarrow> exn + project_version" where
  "VersionDetailView_get_project_version kw w =
     qs_get ProjectVersionModel (filter (pv_fuzzy kw) (project_versions (db w)))"

definition HomeView_get_project_version :: "kwargs \<Rightarrow> world \<Rightarrow> exn + project_version" where
  "HomeView_get_project_version kw w = get_latest (db w) ''Django''"

definition VersionDetailView_get_context_data :: "world \<Rightarrow> exn + version_context" where
  "VersionDetailView_get_context_data w =
     (case self_project_version w of
        None \<Rightarrow> Inl AttributeError
      | Some pv \<Rightarrow>
          Inr \<lparr>object_list =
                 filter (\<lambda>k. pv_eq (module_project_version (klass_module k)) pv)
                   (klasses (db w)),
               projectversion = pv\<rparr>)"

text \<open>
  \<open>VersionDetailView.get\<close>, which \<open>HomeView\<close> inherits; \<open>gpv\<close> is the
  \<open>get_project_version\<close> of the class of \<open>self\<close>.
\<close>

definition VersionDetailView_get_of ::
  "(kwargs \<Rightarrow> world \<Rightarrow> exn + project_version) \<Rightarrow> kwargs \<Rightarrow> world \<Rightarrow>
     (exn + version_context) \<times> world" where
  "VersionDetailView_get_of gpv kw w =
     (case gpv kw w of
        Inl e \<Rightarrow>
          if e = DoesNotExist ProjectVersionModel then (Inl Http404, w) else (Inl e, w)
      | Inr pv \<Rightarrow>
          (let w' = w\<lparr>self_project_version := Some pv\<rparr>
           in (VersionDetailView_get_context_data w', w')))"

definition VersionDetailView_get :: "kwargs \<Rightarrow> world \<Rightarrow> (exn + version_context) \<times> world" where
  "VersionDetailView_get = VersionDetailView_get_of VersionDetailView_get_project_version"

definition HomeView_get :: "kwargs \<Rightarrow> world \<Rightarrow> (exn + version_context) \<times> world" where
  "HomeView_get = VersionDetailView_get_of HomeView_get_project_version"

subsection \<open>Sitemap\<close>

text \<open>
  An entry of the \<open>urlset\<close>. The priorities are the literals \<open>1.0\<close>, \<open>0.9\<close> and
  \<open>0.5\<close> of the source, which are stored and never computed with; they are the
  rationals \<open>1\<close>, \<open>9/10\<close> and \<open>1/2\<close> here.
\<close>

record url_entry =
  location :: string
  priority :: rat

text \<open>
  The \<open>order_by\<close> of the sitemap: package name, then sortable version number
  descending, then module name, then class name. Strings are compared character by
  character; rows of equal key stay in the order of the table.
\<close>

definition sitemap_key :: "klass \<Rightarrow> string \<times> int \<times> string \<times> string" where
  "sitemap_key k =
     (project_name (pv_project (module_project_version (klass_module k))),
      - int (sortable_version_number (module_project_version (klass_module k))),
      mod_name (klass_module k),
      klass_name k)"

definition sitemap_entry :: "urlconf \<Rightarrow> project_version \<Rightarrow> klass \<Rightarrow> url_entry" where
  "sitemap_entry conf latest_version k =
     \<lparr>location = Klass_get_absolute_url conf k,
      priority =
        (if pv_eq (module_project_version (klass_module k)) latest_version
         then 9 / 10 else 1 / 2)\<rparr>"

definition Sitemap_get_context_data :: "urlconf \<Rightarrow> world \<Rightarrow> (exn + url_entry list) \<times> world" where
  "Sitemap_get_context_data conf w =
     (case get_latest (db w) ''Django'' of
        Inl e \<Rightarrow> (Inl e, w)
      | Inr latest_version \<Rightarrow>
          (Inr (\<lparr>location = reverse conf ''home'' Map.empty, priority = 1\<rparr> #
                map (sitemap_entry conf latest_version)
                  (sort_key sitemap_key (klasses (db w)))),
           w))"

text \<open>
  The order that the specification gives to the classes of the sitemap, spelled out on
  two rows: by package name ascending, then by sortable version number descending, then
  by module name ascending, then by class name ascending.
\<close>

definition sitemap_order :: "klass \<Rightarrow> klass \<Rightarrow> bool" where
  "sitemap_order a b \<longleftrightarrow>
     (let pa = project_name (pv_project (module_project_version (klass_module a)));
          pb = project_name (pv_project (module_project_version (klass_module b)));
          sa = sortable_version_number (module_project_version (klass_module a));
          sb = sortable_version_number (module_project_version (klass_module b));
          ma = mod_name (klass_module a);
          mb = mod_name (klass_module b)
      in pa < pb \<or>
         (pa = pb \<and>
          (sb < sa \<or>
           (sa = sb \<and> (ma < mb \<or> (ma = mb \<and> klass_name a \<le> klass_name b))))))"

section \<open>Example stores\<close>

text \<open>
  The store of the spec's sitemap example: the package Django with the versions 1.0
  and 2.0, each with one module \<open>m\<close> and one class \<open>C\<close>. The older version is first
  in every table.
\<close>

definition django :: project where
  "django = \<lparr>project_pk = 1, project_name = ''Django''\<rparr>"

definition v1_0 :: project_version where
  "v1_0 = \<lparr>pv_pk = 1, pv_project = django, version_number = ''1.0'',
            sortable_version_number = 100\<rparr>"

definition v2_0 :: project_version where
  "v2_0 = \<lparr>pv_pk = 2, pv_project = django, version_number = ''2.0'',
            sortable_version_number = 200\<rparr>"

definition m_1_0 :: module where
  "m_1_0 = \<lparr>module_pk = 1, module_project_version = v1_0, mod_name = ''m''\<rparr>"

definition m_2_0 :: module where
  "m_2_0 = \<lparr>module_pk = 2, module_project_version = v2_0, mod_name = ''m''\<rparr>"

definition C_1_0 :: klass where
  "C_1_0 = \<lparr>klass_pk = 1, klass_module = m_1_0, klass_name = ''C''\<rparr>"

definition C_2_0 :: klass where
  "C_2_0 = \<lparr>klass_pk = 2, klass_module = m_2_0, klass_name = ''C''\<rparr>"

definition store_two_versions :: store where
  "store_two_versions =
     \<lparr>project_versions = [v1_0, v2_0], modules = [m_1_0, m_2_0], klasses = [C_1_0, C_2_0]\<rparr>"

text \<open>
  A store where two classes of one module differ in case only: \<open>View\<close> and \<open>view\<close> in
  module \<open>m\<close> of Django 2.0.
\<close>

definition View_2_0 :: klass where
  "View_2_0 = \<lparr>klass_pk = 3, klass_module = m_2_0, klass_name = ''View''\<rparr>"

definition view_2_0 :: klass where
  "view_2_0 = \<lparr>klass_pk = 4, klass_module = m_2_0, klass_name = ''view''\<rparr>"

definition store_case_twins :: store where
  "store_case_twins =
     \<lparr>project_versions = [v2_0], modules = [m_2_0], klasses = [View_2_0, view_2_0]\<rparr>"

text \<open>
  The store of the spec's version example: Django with the versions 1.9, 1.10 and 2.0,
  whose sortable keys order them as versions and not as strings.
\<close>

definition v1_9 :: project_version where
  "v1_9 = \<lparr>pv_pk = 3, pv_project = django, version_number = ''1.9'',
            sortable_version_number = 109\<rparr>"

definition v1_10 :: project_version where
  "v1_10 = \<lparr>pv_pk = 4, pv_project = django, version_number = ''1.10'',
             sortable_version_number = 110\<rparr>"

definition store_three_versions :: store where
  "store_three_versions = \<lparr>project_versions = [v1_9, v1_10, v2_0], modules = [], klasses = []\<rparr>"

text \<open>Django with the versions 1.9 and 1.10 only.\<close>

definition store_minor_versions :: store where
  "store_minor_versions = \<lparr>project_versions = [v1_9, v1_10], modules = [], klasses = []\<rparr>"

text \<open>
  A store where two modules of one version differ in case only, \<open>Mod\<close> and \<open>mod\<close> in
  Django 2.0, and a store where two packages differ in case only, \<open>Django\<close> and
  \<open>django\<close>, each with a version 2.0.
\<close>

definition Mod_2_0 :: module where
  "Mod_2_0 = \<lparr>module_pk = 5, module_project_version = v2_0, mod_name = ''Mod''\<rparr>"

definition mod_2_0 :: module where
  "mod_2_0 = \<lparr>module_pk = 6, module_project_version = v2_0, mod_name = ''mod''\<rparr>"

definition store_module_twins :: store where
  "store_module_twins =
     \<lparr>project_versions = [v2_0], modules = [Mod_2_0, mod_2_0], klasses = []\<rparr>"

definition django_lower :: project where
  "django_lower = \<lparr>project_pk = 2, project_name = ''django''\<rparr>"

definition v2_0_lower :: project_version where
  "v2_0_lower = \<lparr>pv_pk = 5, pv_project = django_lower, version_number = ''2.0'',
                  sortable_version_number = 200\<rparr>"

definition store_package_twins :: store where
  "store_package_twins =
     \<lparr>project_versions = [v2_0, v2_0_lower], modules = [m_2_0], klasses = [C_2_0]\<rparr>"

text \<open>A URL configuration that joins the names with slashes.\<close>

definition example_conf :: urlconf where
  "example_conf =
     \<lparr>reverse = (\<lambda>route kwargs. ''/''),
      klass_url = (\<lambda>p v m k. ''/'' @ p @ ''/'' @ v @ ''/'' @ m @ ''/'' @ k @ ''/''),
      module_url = (\<lambda>p v m. ''/'' @ p @ ''/'' @ v @ ''/'' @ m @ ''/'')\<rparr>"

definition example_kwargs :: "string \<Rightarrow> string \<Rightarrow> string \<Rightarrow> string \<Rightarrow> kwargs" where
  "example_kwargs p v m k = \<lparr>kw_package = p, kw_version = v, kw_module = m, kw_klass = k\<rparr>"

section \<open>Properties\<close>

lemmas example_defs =
  django_def v1_0_def v2_0_def m_1_0_def m_2_0_def C_1_0_def C_2_0_def
  store_two_versions_def View_2_0_def view_2_0_def store_case_twins_def v1_9_def v1_10_def
  store_three_versions_def store_minor_versions_def example_conf_def example_kwargs_def
  Mod_2_0_def mod_2_0_def store_module_twins_def django_lower_def v2_0_lower_def
  store_package_twins_def

lemmas view_defs =
  KlassDetailView_get_def KlassDetailView_get_object_def KlassDetailView_get_precise_object_def
  KlassDetailView_get_fuzzy_object_def KlassDetailView_get_context_data_def
  LatestKlassDetailView_get_def LatestKlassDetailView_get_object_def
  LatestKlassDetailView_get_precise_object_def LatestKlassDetailView_get_fuzzy_object_def
  ModuleDetailView_get_def ModuleDetailView_get_object_def
  ModuleDetailView_get_precise_object_def ModuleDetailView_get_fuzzy_object_def
  ModuleDetailView_get_context_data_def
  VersionDetailView_get_def HomeView_get_def VersionDetailView_get_of_def
  VersionDetailView_get_project_version_def HomeView_get_project_version_def
  VersionDetailView_get_context_data_def
  Sitemap_get_context_data_def sitemap_entry_def sitemap_key_def
  get_latest_def get_latest_for_name_def
  Klass_get_absolute_url_def Module_get_absolute_url_def
  klass_precise_def klass_fuzzy_def pv_fuzzy_def module_precise_def module_fuzzy_def
  pv_eq_def module_eq_def iexact_def lower_char_def as_view_def

lemma iexact_refl: "iexact a a"
  by (simp add: iexact_def)

lemma klass_precise_fuzzy: "klass_precise kw k \<Longrightarrow> klass_fuzzy kw k"
  by (auto simp: klass_precise_def klass_fuzzy_def iexact_refl)

lemma qs_get_Inr_iff: "qs_get m xs = Inr x \<longleftrightarrow> xs = [x]"
  by (cases "(m, xs)" rule: qs_get.cases) auto

lemma qs_get_DoesNotExist_iff: "qs_get m xs = Inl (DoesNotExist m') \<longleftrightarrow> xs = [] \<and> m' = m"
  by (cases "(m, xs)" rule: qs_get.cases) auto

lemma qs_get_Inl_cases:
  "qs_get m xs = Inl e \<Longrightarrow> e = DoesNotExist m \<or> e = MultipleObjectsReturned m"
  by (cases "(m, xs)" rule: qs_get.cases) auto

lemma qs_get_Http404: "qs_get m xs \<noteq> Inl Http404"
  by (cases "(m, xs)" rule: qs_get.cases) auto

lemma klass_fuzzy_miss_precise_miss:
  "filter (klass_fuzzy kw) ks = [] \<Longrightarrow> filter (klass_precise kw) ks = []"
  by (auto simp: filter_empty_conv klass_precise_fuzzy)

lemma KlassDetailView_miss:
  "filter (klass_fuzzy kw) (klasses (db w)) = [] \<Longrightarrow>
     KlassDetailView_get conf kw w = (Inl Http404, w)"
  by (simp add: KlassDetailView_get_def KlassDetailView_get_object_def
      KlassDetailView_get_precise_object_def KlassDetailView_get_fuzzy_object_def
      klass_fuzzy_miss_precise_miss)

lemma KlassDetailView_Http404_iff:
  "fst (KlassDetailView_get conf kw w) = Inl Http404 \<longleftrightarrow>
     filter (klass_fuzzy kw) (klasses (db w)) = []"
proof
  assume "filter (klass_fuzzy kw) (klasses (db w)) = []"
  then show "fst (KlassDetailView_get conf kw w) = Inl Http404"
    by (simp add: KlassDetailView_miss)
next
  assume "fst (KlassDetailView_get conf kw w) = Inl Http404"
  then show "filter (klass_fuzzy kw) (klasses (db w)) = []"
    by (auto simp: KlassDetailView_get_def KlassDetailView_get_object_def
        KlassDetailView_get_precise_object_def KlassDetailView_get_fuzzy_object_def
        qs_get_DoesNotExist_iff qs_get_Http404
        split: sum.splits if_splits)
qed

lemma KlassDetailView_errors:
  "fst (KlassDetailView_get conf kw w) = Inl e \<Longrightarrow>
     e = Http404 \<or> e = MultipleObjectsReturned KlassModel"
  by (auto simp: KlassDetailView_get_def KlassDetailView_get_object_def
      KlassDetailView_get_precise_object_def KlassDetailView_get_fuzzy_object_def
      split: sum.splits if_splits dest: qs_get_Inl_cases)

lemma filter_singletonD: "filter P xs = [x] \<Longrightarrow> x \<in> set xs \<and> P x"
proof -
  assume "filter P xs = [x]"
  then have "x \<in> set (filter P xs)" by simp
  then show ?thesis by simp
qed

lemma KlassDetailView_found:
  assumes "fst (KlassDetailView_get conf kw w) = Inr c"
  shows "kc_object c \<in> set (klasses (db w)) \<and> klass_fuzzy kw (kc_object c)"
proof -
  from assms have "filter (klass_precise kw) (klasses (db w)) = [kc_object c] \<or>
             filter (klass_fuzzy kw) (klasses (db w)) = [kc_object c]"
    by (auto simp: KlassDetailView_get_def KlassDetailView_get_object_def
        KlassDetailView_get_precise_object_def KlassDetailView_get_fuzzy_object_def
        KlassDetailView_get_context_data_def qs_get_Inr_iff
        split: sum.splits if_splits)
  then show ?thesis
    using filter_singletonD [of "klass_precise kw" "klasses (db w)" "kc_object c"]
      filter_singletonD [of "klass_fuzzy kw" "klasses (db w)" "kc_object c"]
      klass_precise_fuzzy [of kw "kc_object c"]
    by blast
qed

lemma ModuleDetailView_version_miss:
  "filter (pv_fuzzy kw) (project_versions (db w)) = [] \<Longrightarrow>
     ModuleDetailView_get conf kw w = (Inl Http404, w)"
  by (simp add: ModuleDetailView_get_def)

lemma ModuleDetailView_module_miss:
  "filter (pv_fuzzy kw) (project_versions (db w)) = [pv] \<Longrightarrow>
   filter (module_precise kw pv) (modules (db w)) = [] \<Longrightarrow>
   filter (module_fuzzy kw) (modules (db w)) = [] \<Longrightarrow>
     fst (ModuleDetailView_get conf kw w) = Inl Http404"
  by (simp add: ModuleDetailView_get_def ModuleDetailView_get_object_def
      ModuleDetailView_get_precise_object_def ModuleDetailView_get_fuzzy_object_def)

lemma ModuleDetailView_get_object_errors:
  "self_project_version w = Some pv \<Longrightarrow>
   fst (ModuleDetailView_get_object conf kw w) = Inl e \<Longrightarrow>
     e = Http404 \<or> e = MultipleObjectsReturned ModuleModel"
  by (auto simp: ModuleDetailView_get_object_def
      ModuleDetailView_get_precise_object_def ModuleDetailView_get_fuzzy_object_def
      split: sum.splits if_splits dest: qs_get_Inl_cases)

lemma ModuleDetailView_get_object_keeps_version:
  "self_project_version (snd (ModuleDetailView_get_object conf kw w)) = self_project_version w"
  by (auto simp: ModuleDetailView_get_object_def split: sum.splits if_splits)

lemma ModuleDetailView_errors:
  assumes "fst (ModuleDetailView_get conf kw w) = Inl e"
  shows "e = Http404 \<or> e = MultipleObjectsReturned ModuleModel \<or>
         e = MultipleObjectsReturned ProjectVersionModel"
proof (cases "qs_get ProjectVersionModel (filter (pv_fuzzy kw) (project_versions (db w)))")
  case (Inl e')
  with assms qs_get_Inl_cases [OF Inl] show ?thesis
    by (auto simp: ModuleDetailView_get_def split: if_splits)
next
  case (Inr pv)
  let ?w1 = "w\<lparr>self_project_version := Some pv\<rparr>"
  obtain r w2 where g: "ModuleDetailView_get_object conf kw ?w1 = (r, w2)"
    by (cases "ModuleDetailView_get_object conf kw ?w1")
  have v: "self_project_version w2 = Some pv"
    using ModuleDetailView_get_object_keeps_version [of conf kw ?w1] g by simp
  show ?thesis
  proof (cases r)
    case (Inl e'')
    with assms Inr g have "e = e''" by (simp add: ModuleDetailView_get_def)
    moreover have "e'' = Http404 \<or> e'' = MultipleObjectsReturned ModuleModel"
      using ModuleDetailView_get_object_errors [of ?w1 pv conf kw e''] g Inl by simp
    ultimately show ?thesis by blast
  next
    case (Inr obj)
    with assms \<open>qs_get _ _ = Inr pv\<close> g v show ?thesis
      by (simp add: ModuleDetailView_get_def ModuleDetailView_get_context_data_def)
  qed
qed

lemma ModuleDetailView_get_object_found:
  assumes "self_project_version w = Some pv"
    and "ModuleDetailView_get_object conf kw w = (Inr obj, w')"
  shows "obj \<in> set (modules (db w)) \<and> iexact (mod_name obj) (kw_module kw)"
proof -
  from assms have "filter (module_precise kw pv) (modules (db w)) = [obj] \<or>
                   filter (module_fuzzy kw) (modules (db w)) = [obj]"
    by (auto simp: ModuleDetailView_get_object_def ModuleDetailView_get_precise_object_def
        ModuleDetailView_get_fuzzy_object_def qs_get_Inr_iff
        split: sum.splits if_splits)
  then have "obj \<in> set (modules (db w)) \<and> (module_precise kw pv obj \<or> module_fuzzy kw obj)"
    using filter_singletonD [of "module_precise kw pv" "modules (db w)" obj]
      filter_singletonD [of "module_fuzzy kw" "modules (db w)" obj]
    by blast
  then show ?thesis
    by (auto simp: module_precise_def module_fuzzy_def iexact_refl)
qed

lemma ModuleDetailView_get_object_db:
  "db (snd (ModuleDetailView_get_object conf kw w)) = db w"
  by (auto simp: ModuleDetailView_get_object_def split: sum.splits if_splits)

lemma ModuleDetailView_found:
  assumes "fst (ModuleDetailView_get conf kw w) = Inr c"
  shows "mc_object c \<in> set (modules (db w)) \<and>
         iexact (mod_name (mc_object c)) (kw_module kw) \<and>
         mc_project_version c \<in> set (project_versions (db w)) \<and>
         pv_fuzzy kw (mc_project_version c)"
proof (cases "qs_get ProjectVersionModel (filter (pv_fuzzy kw) (project_versions (db w)))")
  case (Inl e)
  with assms show ?thesis
    by (simp add: ModuleDetailView_get_def split: if_splits)
next
  case (Inr pv)
  then have f: "filter (pv_fuzzy kw) (project_versions (db w)) = [pv]"
    by (simp add: qs_get_Inr_iff)
  let ?w1 = "w\<lparr>self_project_version := Some pv\<rparr>"
  obtain r w2 where g: "ModuleDetailView_get_object conf kw ?w1 = (r, w2)"
    by (cases "ModuleDetailView_get_object conf kw ?w1")
  have v: "self_project_version w2 = Some pv"
    using ModuleDetailView_get_object_keeps_version [of conf kw ?w1] g by simp
  from assms Inr g obtain obj where r: "r = Inr obj"
    by (cases r) (simp_all add: ModuleDetailView_get_def)
  from assms Inr g r v have c: "mc_object c = obj \<and> mc_project_version c = pv"
    by (auto simp: ModuleDetailView_get_def ModuleDetailView_get_context_data_def)
  have "obj \<in> set (modules (db ?w1)) \<and> iexact (mod_name obj) (kw_module kw)"
    using ModuleDetailView_get_object_found [of ?w1 pv conf kw obj w2] g r by simp
  with c filter_singletonD [OF f] show ?thesis by simp
qed

text \<open>
  Claim C1. When exactly one Klass row equals the request's class, module, version and
  package names, the class page returns that row and the context's \<open>push_state_url\<close> is
  \<open>None\<close>; the view instance is left as it was.
\<close>

theorem C1_exact_match_no_redirect:
  assumes "filter (klass_precise kw) (klasses s) = [k]"
  shows "KlassDetailView_get conf kw (as_view s) =
           (Inr \<lparr>kc_object = k, kc_push_state_url = None\<rparr>, as_view s)"
  using assms
  by (simp add: KlassDetailView_get_def KlassDetailView_get_object_def
      KlassDetailView_get_precise_object_def KlassDetailView_get_context_data_def as_view_def)

theorem C1_exact_match_no_redirect_witness:
  "filter (klass_precise (example_kwargs ''Django'' ''2.0'' ''m'' ''C''))
     (klasses store_two_versions) = [C_2_0] \<and>
   KlassDetailView_get example_conf (example_kwargs ''Django'' ''2.0'' ''m'' ''C'')
       (as_view store_two_versions) =
     (Inr \<lparr>kc_object = C_2_0, kc_push_state_url = None\<rparr>, as_view store_two_versions)"
proof -
  have h: "filter (klass_precise (example_kwargs ''Django'' ''2.0'' ''m'' ''C''))
             (klasses store_two_versions) = [C_2_0]"
    by (simp add: example_defs klass_precise_def)
  from C1_exact_match_no_redirect [OF h] h show ?thesis by simp
qed

text \<open>
  Claim C2. When no Klass row equals the request's four names but exactly one equals
  them up to case, the class page returns that row, and the redirect hint
  \<open>push_state_url\<close> is the URL of the row's own stored package name, version number,
  module name and class name; the names of the request do not enter it.
\<close>

theorem C2_fuzzy_match_redirects_to_stored_url:
  assumes "filter (klass_precise kw) (klasses s) = []"
    and "filter (klass_fuzzy kw) (klasses s) = [k]"
  shows "KlassDetailView_get conf kw (as_view s) =
           (Inr \<lparr>kc_object = k,
                 kc_push_state_url =
                   Some (klass_url conf
                     (project_name (pv_project (module_project_version (klass_module k))))
                     (version_number (module_project_version (klass_module k)))
                     (mod_name (klass_module k))
                     (klass_name k))\<rparr>,
            (as_view s)\<lparr>self_push_state_url :=
                   Some (klass_url conf
                     (project_name (pv_project (module_project_version (klass_module k))))
                     (version_number (module_project_version (klass_module k)))
                     (mod_name (klass_module k))
                     (klass_name k))\<rparr>)"
  using assms
  by (simp add: KlassDetailView_get_def KlassDetailView_get_object_def
      KlassDetailView_get_precise_object_def KlassDetailView_get_fuzzy_object_def
      KlassDetailView_get_context_data_def Klass_get_absolute_url_def as_view_def)

theorem C2_fuzzy_match_redirects_to_stored_url_witness:
  "fst (KlassDetailView_get example_conf (example_kwargs ''django'' ''2.0'' ''M'' ''c'')
       (as_view store_two_versions)) =
     Inr \<lparr>kc_object = C_2_0, kc_push_state_url = Some ''/Django/2.0/m/C/''\<rparr> \<and>
   klass_url example_conf ''django'' ''2.0'' ''M'' ''c'' \<noteq> ''/Django/2.0/m/C/''"
proof -
  have h1: "filter (klass_precise (example_kwargs ''django'' ''2.0'' ''M'' ''c''))
              (klasses store_two_versions) = []"
    by (simp add: example_defs klass_precise_def)
  have h2: "filter (klass_fuzzy (example_kwargs ''django'' ''2.0'' ''M'' ''c''))
              (klasses store_two_versions) = [C_2_0]"
    by (simp add: example_defs klass_fuzzy_def iexact_def lower_char_def)
  have u: "klass_url example_conf
             (project_name (pv_project (module_project_version (klass_module C_2_0))))
             (version_number (module_project_version (klass_module C_2_0)))
             (mod_name (klass_module C_2_0)) (klass_name C_2_0) = ''/Django/2.0/m/C/''"
    by (simp add: example_defs)
  have v: "klass_url example_conf ''django'' ''2.0'' ''M'' ''c'' \<noteq> ''/Django/2.0/m/C/''"
    by (simp add: example_defs)
  from C2_fuzzy_match_redirects_to_stored_url [OF h1 h2, of example_conf] u v
  show ?thesis by simp
qed


lemma qs_get_several: "1 < length xs \<Longrightarrow> qs_get m xs = Inl (MultipleObjectsReturned m)"
  by (cases "(m, xs)" rule: qs_get.cases) auto

lemma qs_get_Multiple_iff:
  "qs_get m xs = Inl (MultipleObjectsReturned m') \<longleftrightarrow> 1 < length xs \<and> m' = m"
  by (cases "(m, xs)" rule: qs_get.cases) auto

lemma qs_get_Inl_iff:
  "qs_get m xs = Inl e \<longleftrightarrow>
     (xs = [] \<and> e = DoesNotExist m) \<or> (1 < length xs \<and> e = MultipleObjectsReturned m)"
  by (cases "(m, xs)" rule: qs_get.cases) auto

lemma KlassDetailView_Multiple_iff:
  "fst (KlassDetailView_get conf kw w) = Inl (MultipleObjectsReturned KlassModel) \<longleftrightarrow>
     1 < length (filter (klass_precise kw) (klasses (db w))) \<or>
     filter (klass_precise kw) (klasses (db w)) = [] \<and>
     1 < length (filter (klass_fuzzy kw) (klasses (db w)))"
  by (auto simp: KlassDetailView_get_def KlassDetailView_get_object_def
      KlassDetailView_get_precise_object_def KlassDetailView_get_fuzzy_object_def
      qs_get_Inl_iff qs_get_Inr_iff split: sum.splits if_splits)

lemma ModuleDetailView_get_object_precise_hit:
  "self_project_version w = Some pv \<Longrightarrow>
   filter (module_precise kw pv) (modules (db w)) = [m] \<Longrightarrow>
     ModuleDetailView_get_object conf kw w = (Inr m, w)"
  by (simp add: ModuleDetailView_get_object_def ModuleDetailView_get_precise_object_def)

lemma ModuleDetailView_get_object_fuzzy_hit:
  "self_project_version w = Some pv \<Longrightarrow>
   filter (module_precise kw pv) (modules (db w)) = [] \<Longrightarrow>
   filter (module_fuzzy kw) (modules (db w)) = [m] \<Longrightarrow>
     ModuleDetailView_get_object conf kw w =
       (Inr m, w\<lparr>self_push_state_url := Some (Module_get_absolute_url conf m)\<rparr>)"
  by (simp add: ModuleDetailView_get_object_def ModuleDetailView_get_precise_object_def
      ModuleDetailView_get_fuzzy_object_def)

lemma ModuleDetailView_get_object_Inl_iff:
  "self_project_version w = Some pv \<Longrightarrow>
   fst (ModuleDetailView_get_object conf kw w) = Inl e \<longleftrightarrow>
     (filter (module_precise kw pv) (modules (db w)) = [] \<and>
      filter (module_fuzzy kw) (modules (db w)) = [] \<and> e = Http404) \<or>
     ((1 < length (filter (module_precise kw pv) (modules (db w))) \<or>
       filter (module_precise kw pv) (modules (db w)) = [] \<and>
       1 < length (filter (module_fuzzy kw) (modules (db w)))) \<and>
      e = MultipleObjectsReturned ModuleModel)"
  by (auto simp: ModuleDetailView_get_object_def ModuleDetailView_get_precise_object_def
      ModuleDetailView_get_fuzzy_object_def qs_get_Inl_iff qs_get_Inr_iff
      split: sum.splits if_splits)

lemma ModuleDetailView_get_Inl_iff:
  "fst (ModuleDetailView_get conf kw w) = Inl e \<longleftrightarrow>
     (filter (pv_fuzzy kw) (project_versions (db w)) = [] \<and> e = Http404) \<or>
     (1 < length (filter (pv_fuzzy kw) (project_versions (db w))) \<and>
      e = MultipleObjectsReturned ProjectVersionModel) \<or>
     (\<exists>pv. filter (pv_fuzzy kw) (project_versions (db w)) = [pv] \<and>
        ((filter (module_precise kw pv) (modules (db w)) = [] \<and>
          filter (module_fuzzy kw) (modules (db w)) = [] \<and> e = Http404) \<or>
         ((1 < length (filter (module_precise kw pv) (modules (db w))) \<or>
           filter (module_precise kw pv) (modules (db w)) = [] \<and>
           1 < length (filter (module_fuzzy kw) (modules (db w)))) \<and>
          e = MultipleObjectsReturned ModuleModel)))"
proof (cases "qs_get ProjectVersionModel (filter (pv_fuzzy kw) (project_versions (db w)))")
  case (Inl e')
  then have r: "fst (ModuleDetailView_get conf kw w) =
                  Inl (if e' = DoesNotExist ProjectVersionModel then Http404 else e')"
    by (simp add: ModuleDetailView_get_def)
  from Inl have "(filter (pv_fuzzy kw) (project_versions (db w)) = [] \<and>
                  e' = DoesNotExist ProjectVersionModel) \<or>
                 (1 < length (filter (pv_fuzzy kw) (project_versions (db w))) \<and>
                  e' = MultipleObjectsReturned ProjectVersionModel)"
    by (simp add: qs_get_Inl_iff)
  with r show ?thesis
    by auto
next
  case (Inr pv)
  then have f: "filter (pv_fuzzy kw) (project_versions (db w)) = [pv]"
    by (simp add: qs_get_Inr_iff)
  let ?w1 = "w\<lparr>self_project_version := Some pv\<rparr>"
  obtain r w2 where g: "ModuleDetailView_get_object conf kw ?w1 = (r, w2)"
    by (cases "ModuleDetailView_get_object conf kw ?w1")
  have v: "self_project_version w2 = Some pv"
    using ModuleDetailView_get_object_keeps_version [of conf kw ?w1] g by simp
  have "fst (ModuleDetailView_get conf kw w) = Inl e \<longleftrightarrow> r = Inl e"
    using Inr g v
    by (cases r) (simp_all add: ModuleDetailView_get_def ModuleDetailView_get_context_data_def)
  also have "\<dots> \<longleftrightarrow> fst (ModuleDetailView_get_object conf kw ?w1) = Inl e"
    using g by simp
  finally show ?thesis
    using ModuleDetailView_get_object_Inl_iff [of ?w1 pv conf kw e] f by simp
qed

lemma ModuleDetailView_precise_hit:
  assumes "filter (pv_fuzzy kw) (project_versions (db w)) = [pv]"
    and "filter (module_precise kw pv) (modules (db w)) = [m]"
  shows "fst (ModuleDetailView_get conf kw w) =
           Inr \<lparr>mc_object = m, mc_project_version = pv,
                mc_klass_list =
                  filter (\<lambda>k. module_pk (klass_module k) = module_pk m) (klasses (db w)),
                mc_push_state_url = self_push_state_url w\<rparr>"
  using assms ModuleDetailView_get_object_precise_hit
    [of "w\<lparr>self_project_version := Some pv\<rparr>" pv kw m conf]
  by (simp add: ModuleDetailView_get_def ModuleDetailView_get_context_data_def module_eq_def)

lemma ModuleDetailView_fuzzy_hit:
  assumes "filter (pv_fuzzy kw) (project_versions (db w)) = [pv]"
    and "filter (module_precise kw pv) (modules (db w)) = []"
    and "filter (module_fuzzy kw) (modules (db w)) = [m]"
  shows "fst (ModuleDetailView_get conf kw w) =
           Inr \<lparr>mc_object = m, mc_project_version = pv,
                mc_klass_list =
                  filter (\<lambda>k. module_pk (klass_module k) = module_pk m) (klasses (db w)),
                mc_push_state_url = Some (Module_get_absolute_url conf m)\<rparr>"
  using assms ModuleDetailView_get_object_fuzzy_hit
    [of "w\<lparr>self_project_version := Some pv\<rparr>" pv kw m conf]
  by (simp add: ModuleDetailView_get_def ModuleDetailView_get_context_data_def module_eq_def)

lemma ModuleDetailView_found_scoped:
  assumes "fst (ModuleDetailView_get conf kw w) = Inr c"
  shows "(mod_name (mc_object c) = kw_module kw \<and>
          pv_pk (module_project_version (mc_object c)) = pv_pk (mc_project_version c)) \<or>
         module_fuzzy kw (mc_object c)"
proof (cases "qs_get ProjectVersionModel (filter (pv_fuzzy kw) (project_versions (db w)))")
  case (Inl e)
  with assms show ?thesis
    by (simp add: ModuleDetailView_get_def split: if_splits)
next
  case (Inr pv)
  let ?w1 = "w\<lparr>self_project_version := Some pv\<rparr>"
  obtain r w2 where g: "ModuleDetailView_get_object conf kw ?w1 = (r, w2)"
    by (cases "ModuleDetailView_get_object conf kw ?w1")
  have v: "self_project_version w2 = Some pv"
    using ModuleDetailView_get_object_keeps_version [of conf kw ?w1] g by simp
  from assms Inr g obtain obj where r: "r = Inr obj"
    by (cases r) (simp_all add: ModuleDetailView_get_def)
  from assms Inr g r v have c: "mc_object c = obj \<and> mc_project_version c = pv"
    by (auto simp: ModuleDetailView_get_def ModuleDetailView_get_context_data_def)
  from g r have "filter (module_precise kw pv) (modules (db w)) = [obj] \<or>
                 filter (module_fuzzy kw) (modules (db w)) = [obj]"
    by (auto simp: ModuleDetailView_get_object_def ModuleDetailView_get_precise_object_def
        ModuleDetailView_get_fuzzy_object_def qs_get_Inr_iff
        split: sum.splits if_splits)
  then have "module_precise kw pv obj \<or> module_fuzzy kw obj"
    using filter_singletonD [of "module_precise kw pv" "modules (db w)" obj]
      filter_singletonD [of "module_fuzzy kw" "modules (db w)" obj]
    by blast
  with c show ?thesis
    by (auto simp: module_precise_def pv_eq_def)
qed

text \<open>
  Claim C3, as stated, fails: \<open>Http404\<close> is not the only error of resolution. When the
  case-insensitive query of the class page matches two rows, \<open>get()\<close> raises
  \<open>MultipleObjectsReturned\<close>, which no \<open>except\<close> clause of the view catches.
\<close>

theorem C3_counterexample:
  "filter (klass_fuzzy (example_kwargs ''Django'' ''2.0'' ''m'' ''VIEW''))
     (klasses store_case_twins) = [View_2_0, view_2_0] \<and>
   fst (KlassDetailView_get example_conf (example_kwargs ''Django'' ''2.0'' ''m'' ''VIEW'')
     (as_view store_case_twins)) = Inl (MultipleObjectsReturned KlassModel)"
  by (simp add: example_defs view_defs)

text \<open>
  Claim C3, amended. On the class page and the module page, a request that matches
  nothing, exactly or up to case, fails with \<open>Http404\<close>: the class page exactly when
  no class matches up to case; the module page when no version matches up to case, and
  when one version does and no module matches. \<open>Http404\<close> is not the only error of the
  two pages: a lookup whose query matches more than one row raises
  \<open>MultipleObjectsReturned\<close>, and the theorem says for each lookup when. These two are
  the only errors of the two pages. A page that succeeds shows a row of the store that
  matches the request up to case; on the module page the module is the single exact
  match inside the resolved version, or else the single match up to case, so that no
  other entity is substituted.
\<close>

theorem C3_miss_is_not_found:
  "(fst (KlassDetailView_get conf kw (as_view s)) = Inl Http404 \<longleftrightarrow>
      filter (klass_fuzzy kw) (klasses s) = []) \<and>
   (fst (KlassDetailView_get conf kw (as_view s)) =
      Inl (MultipleObjectsReturned KlassModel) \<longleftrightarrow>
      1 < length (filter (klass_precise kw) (klasses s)) \<or>
      filter (klass_precise kw) (klasses s) = [] \<and>
      1 < length (filter (klass_fuzzy kw) (klasses s))) \<and>
   (fst (KlassDetailView_get conf kw (as_view s)) = Inl e \<longrightarrow>
      e = Http404 \<or> e = MultipleObjectsReturned KlassModel) \<and>
   (fst (KlassDetailView_get conf kw (as_view s)) = Inr c \<longrightarrow>
      kc_object c \<in> set (klasses s) \<and> klass_fuzzy kw (kc_object c)) \<and>
   (filter (pv_fuzzy kw) (project_versions s) = [] \<longrightarrow>
      fst (ModuleDetailView_get conf kw (as_view s)) = Inl Http404) \<and>
   (filter (pv_fuzzy kw) (project_versions s) = [pv] \<and>
    filter (module_precise kw pv) (modules s) = [] \<and>
    filter (module_fuzzy kw) (modules s) = [] \<longrightarrow>
      fst (ModuleDetailView_get conf kw (as_view s)) = Inl Http404) \<and>
   (fst (ModuleDetailView_get conf kw (as_view s)) = Inl e' \<longrightarrow>
      e' = Http404 \<or> e' = MultipleObjectsReturned ModuleModel \<or>
      e' = MultipleObjectsReturned ProjectVersionModel) \<and>
   (fst (ModuleDetailView_get conf kw (as_view s)) = Inl e' \<longleftrightarrow>
      (filter (pv_fuzzy kw) (project_versions s) = [] \<and> e' = Http404) \<or>
      (1 < length (filter (pv_fuzzy kw) (project_versions s)) \<and>
       e' = MultipleObjectsReturned ProjectVersionModel) \<or>
      (\<exists>v. filter (pv_fuzzy kw) (project_versions s) = [v] \<and>
         ((filter (module_precise kw v) (modules s) = [] \<and>
           filter (module_fuzzy kw) (modules s) = [] \<and> e' = Http404) \<or>
          ((1 < length (filter (module_precise kw v) (modules s)) \<or>
            filter (module_precise kw v) (modules s) = [] \<and>
            1 < length (filter (module_fuzzy kw) (modules s))) \<and>
           e' = MultipleObjectsReturned ModuleModel)))) \<and>
   (filter (pv_fuzzy kw) (project_versions s) = [pv] \<and>
    filter (module_precise kw pv) (modules s) = [m] \<longrightarrow>
      fst (ModuleDetailView_get conf kw (as_view s)) =
        Inr \<lparr>mc_object = m, mc_project_version = pv,
             mc_klass_list =
               filter (\<lambda>k. module_pk (klass_module k) = module_pk m) (klasses s),
             mc_push_state_url = None\<rparr>) \<and>
   (filter (pv_fuzzy kw) (project_versions s) = [pv] \<and>
    filter (module_precise kw pv) (modules s) = [] \<and>
    filter (module_fuzzy kw) (modules s) = [m] \<longrightarrow>
      fst (ModuleDetailView_get conf kw (as_view s)) =
        Inr \<lparr>mc_object = m, mc_project_version = pv,
             mc_klass_list =
               filter (\<lambda>k. module_pk (klass_module k) = module_pk m) (klasses s),
             mc_push_state_url = Some (Module_get_absolute_url conf m)\<rparr>) \<and>
   (fst (ModuleDetailView_get conf kw (as_view s)) = Inr c' \<longrightarrow>
      mc_object c' \<in> set (modules s) \<and>
      iexact (mod_name (mc_object c')) (kw_module kw) \<and>
      mc_project_version c' \<in> set (project_versions s) \<and>
      pv_fuzzy kw (mc_project_version c') \<and>
      ((mod_name (mc_object c') = kw_module kw \<and>
        pv_pk (module_project_version (mc_object c')) = pv_pk (mc_project_version c')) \<or>
       module_fuzzy kw (mc_object c')))"
proof -
  have d: "db (as_view s) = s" by (simp add: as_view_def)
  have p: "self_push_state_url (as_view s) = None" by (simp add: as_view_def)
  have k404: "(fst (KlassDetailView_get conf kw (as_view s)) = Inl Http404 \<longleftrightarrow>
      filter (klass_fuzzy kw) (klasses s) = [])"
    using KlassDetailView_Http404_iff [of conf kw "as_view s"] d by simp
  have kmult: "(fst (KlassDetailView_get conf kw (as_view s)) =
      Inl (MultipleObjectsReturned KlassModel) \<longleftrightarrow>
      1 < length (filter (klass_precise kw) (klasses s)) \<or>
      filter (klass_precise kw) (klasses s) = [] \<and>
      1 < length (filter (klass_fuzzy kw) (klasses s)))"
    using KlassDetailView_Multiple_iff [of conf kw "as_view s"] d by simp
  have kerr: "(fst (KlassDetailView_get conf kw (as_view s)) = Inl e \<longrightarrow>
      e = Http404 \<or> e = MultipleObjectsReturned KlassModel)"
    using KlassDetailView_errors [of conf kw "as_view s" e] by blast
  have kfound: "(fst (KlassDetailView_get conf kw (as_view s)) = Inr c \<longrightarrow>
      kc_object c \<in> set (klasses s) \<and> klass_fuzzy kw (kc_object c))"
    using KlassDetailView_found [of conf kw "as_view s" c] d by simp
  have mvmiss: "(filter (pv_fuzzy kw) (project_versions s) = [] \<longrightarrow>
      fst (ModuleDetailView_get conf kw (as_view s)) = Inl Http404)"
    using ModuleDetailView_version_miss [of kw "as_view s" conf] d by simp
  have mmmiss: "(filter (pv_fuzzy kw) (project_versions s) = [pv] \<and>
    filter (module_precise kw pv) (modules s) = [] \<and>
    filter (module_fuzzy kw) (modules s) = [] \<longrightarrow>
      fst (ModuleDetailView_get conf kw (as_view s)) = Inl Http404)"
    using ModuleDetailView_module_miss [of kw "as_view s" pv conf] d by simp
  have merr: "(fst (ModuleDetailView_get conf kw (as_view s)) = Inl e' \<longrightarrow>
      e' = Http404 \<or> e' = MultipleObjectsReturned ModuleModel \<or>
      e' = MultipleObjectsReturned ProjectVersionModel)"
    using ModuleDetailView_errors [of conf kw "as_view s" e'] by blast
  have merriff: "(fst (ModuleDetailView_get conf kw (as_view s)) = Inl e' \<longleftrightarrow>
      (filter (pv_fuzzy kw) (project_versions s) = [] \<and> e' = Http404) \<or>
      (1 < length (filter (pv_fuzzy kw) (project_versions s)) \<and>
       e' = MultipleObjectsReturned ProjectVersionModel) \<or>
      (\<exists>v. filter (pv_fuzzy kw) (project_versions s) = [v] \<and>
         ((filter (module_precise kw v) (modules s) = [] \<and>
           filter (module_fuzzy kw) (modules s) = [] \<and> e' = Http404) \<or>
          ((1 < length (filter (module_precise kw v) (modules s)) \<or>
            filter (module_precise kw v) (modules s) = [] \<and>
            1 < length (filter (module_fuzzy kw) (modules s))) \<and>
           e' = MultipleObjectsReturned ModuleModel))))"
    using ModuleDetailView_get_Inl_iff [of conf kw "as_view s" e'] d by simp
  have mphit: "(filter (pv_fuzzy kw) (project_versions s) = [pv] \<and>
    filter (module_precise kw pv) (modules s) = [m] \<longrightarrow>
      fst (ModuleDetailView_get conf kw (as_view s)) =
        Inr \<lparr>mc_object = m, mc_project_version = pv,
             mc_klass_list =
               filter (\<lambda>k. module_pk (klass_module k) = module_pk m) (klasses s),
             mc_push_state_url = None\<rparr>)"
    using ModuleDetailView_precise_hit [of kw "as_view s" pv m conf] d p by simp
  have mfhit: "(filter (pv_fuzzy kw) (project_versions s) = [pv] \<and>
    filter (module_precise kw pv) (modules s) = [] \<and>
    filter (module_fuzzy kw) (modules s) = [m] \<longrightarrow>
      fst (ModuleDetailView_get conf kw (as_view s)) =
        Inr \<lparr>mc_object = m, mc_project_version = pv,
             mc_klass_list =
               filter (\<lambda>k. module_pk (klass_module k) = module_pk m) (klasses s),
             mc_push_state_url = Some (Module_get_absolute_url conf m)\<rparr>)"
    using ModuleDetailView_fuzzy_hit [of kw "as_view s" pv m conf] d by simp
  have mfound: "(fst (ModuleDetailView_get conf kw (as_view s)) = Inr c' \<longrightarrow>
      mc_object c' \<in> set (modules s) \<and>
      iexact (mod_name (mc_object c')) (kw_module kw) \<and>
      mc_project_version c' \<in> set (project_versions s) \<and>
      pv_fuzzy kw (mc_project_version c') \<and>
      ((mod_name (mc_object c') = kw_module kw \<and>
        pv_pk (module_project_version (mc_object c')) = pv_pk (mc_project_version c')) \<or>
       module_fuzzy kw (mc_object c')))"
    using ModuleDetailView_found [of conf kw "as_view s" c']
      ModuleDetailView_found_scoped [of conf kw "as_view s" c'] d by simp
  show ?thesis
    by (intro conjI)
      (rule k404, rule kmult, rule kerr, rule kfound, rule mvmiss, rule mmmiss, rule merr,
        rule merriff, rule mphit, rule mfhit, rule mfound)
qed

theorem C3_miss_is_not_found_witness:
  "fst (KlassDetailView_get example_conf (example_kwargs ''Django'' ''3.0'' ''m'' ''C'')
         (as_view store_two_versions)) = Inl Http404 \<and>
   fst (ModuleDetailView_get example_conf (example_kwargs ''Flask'' ''2.0'' ''m'' [])
         (as_view store_two_versions)) = Inl Http404 \<and>
   fst (ModuleDetailView_get example_conf (example_kwargs ''Django'' ''2.0'' ''views'' [])
         (as_view store_two_versions)) = Inl Http404 \<and>
   C_2_0 \<in> set (klasses store_two_versions) \<and>
   m_2_0 \<in> set (modules store_two_versions) \<and>
   fst (KlassDetailView_get example_conf (example_kwargs ''Django'' ''2.0'' ''m'' ''VIEW'')
         (as_view store_case_twins)) = Inl (MultipleObjectsReturned KlassModel) \<and>
   fst (ModuleDetailView_get example_conf (example_kwargs ''DJANGO'' ''2.0'' ''m'' [])
         (as_view store_package_twins)) =
     Inl (MultipleObjectsReturned ProjectVersionModel) \<and>
   fst (ModuleDetailView_get example_conf (example_kwargs ''Django'' ''2.0'' ''MOD'' [])
         (as_view store_module_twins)) = Inl (MultipleObjectsReturned ModuleModel) \<and>
   fst (ModuleDetailView_get example_conf (example_kwargs ''Django'' ''2.0'' ''m'' [])
         (as_view store_two_versions)) =
     Inr \<lparr>mc_object = m_2_0, mc_project_version = v2_0, mc_klass_list = [C_2_0],
          mc_push_state_url = None\<rparr> \<and>
   fst (ModuleDetailView_get example_conf (example_kwargs ''Django'' ''2.0'' ''M'' [])
         (as_view store_two_versions)) =
     Inr \<lparr>mc_object = m_2_0, mc_project_version = v2_0, mc_klass_list = [C_2_0],
          mc_push_state_url = Some ''/Django/2.0/m/''\<rparr>"
proof -
  let ?S = store_two_versions
  let ?K1 = "example_kwargs ''Django'' ''3.0'' ''m'' ''C''"
  let ?K2 = "example_kwargs ''Flask'' ''2.0'' ''m'' []"
  let ?K3 = "example_kwargs ''Django'' ''2.0'' ''views'' []"
  let ?K4 = "example_kwargs ''Django'' ''2.0'' ''m'' ''C''"
  let ?K5 = "example_kwargs ''Django'' ''2.0'' ''m'' ''VIEW''"
  let ?K6 = "example_kwargs ''DJANGO'' ''2.0'' ''m'' []"
  let ?K7 = "example_kwargs ''Django'' ''2.0'' ''MOD'' []"
  let ?K8 = "example_kwargs ''Django'' ''2.0'' ''m'' []"
  let ?K9 = "example_kwargs ''Django'' ''2.0'' ''M'' []"
  let ?kc = "\<lparr>kc_object = C_2_0, kc_push_state_url = None\<rparr>"
  let ?mc = "\<lparr>mc_object = m_2_0, mc_project_version = v2_0, mc_klass_list = [C_2_0],
              mc_push_state_url = None\<rparr>"
  have h1: "filter (klass_fuzzy ?K1) (klasses ?S) = []"
    by (simp add: example_defs view_defs)
  have h2: "filter (pv_fuzzy ?K2) (project_versions ?S) = []"
    by (simp add: example_defs view_defs)
  have h3: "filter (pv_fuzzy ?K3) (project_versions ?S) = [v2_0] \<and>
            filter (module_precise ?K3 v2_0) (modules ?S) = [] \<and>
            filter (module_fuzzy ?K3) (modules ?S) = []"
    by (simp add: example_defs view_defs)
  have h4: "fst (KlassDetailView_get example_conf ?K4 (as_view ?S)) = Inr ?kc"
    by (simp add: example_defs view_defs)
  have h5: "fst (ModuleDetailView_get example_conf ?K4 (as_view ?S)) = Inr ?mc"
    by (simp add: example_defs view_defs)
  have h6: "filter (klass_precise ?K5) (klasses store_case_twins) = [] \<and>
            1 < length (filter (klass_fuzzy ?K5) (klasses store_case_twins))"
    by (simp add: example_defs view_defs)
  have h7: "1 < length (filter (pv_fuzzy ?K6) (project_versions store_package_twins))"
    by (simp add: example_defs view_defs)
  have h8: "filter (pv_fuzzy ?K7) (project_versions store_module_twins) = [v2_0] \<and>
            filter (module_precise ?K7 v2_0) (modules store_module_twins) = [] \<and>
            1 < length (filter (module_fuzzy ?K7) (modules store_module_twins))"
    by (simp add: example_defs view_defs)
  have h9: "filter (pv_fuzzy ?K8) (project_versions ?S) = [v2_0] \<and>
            filter (module_precise ?K8 v2_0) (modules ?S) = [m_2_0]"
    by (simp add: example_defs view_defs)
  have h10: "filter (pv_fuzzy ?K9) (project_versions ?S) = [v2_0] \<and>
             filter (module_precise ?K9 v2_0) (modules ?S) = [] \<and>
             filter (module_fuzzy ?K9) (modules ?S) = [m_2_0]"
    by (simp add: example_defs view_defs)
  have l: "filter (\<lambda>k. module_pk (klass_module k) = module_pk m_2_0) (klasses ?S) = [C_2_0]"
    by (simp add: example_defs)
  have u: "Module_get_absolute_url example_conf m_2_0 = ''/Django/2.0/m/''"
    by (simp add: example_defs view_defs)
  have a: "fst (KlassDetailView_get example_conf ?K1 (as_view ?S)) = Inl Http404"
    using C3_miss_is_not_found
        [where conf = example_conf and kw = ?K1 and s = ?S,
         THEN conjunct1] h1
    by simp
  have b: "fst (ModuleDetailView_get example_conf ?K2 (as_view ?S)) = Inl Http404"
    using C3_miss_is_not_found
        [where conf = example_conf and kw = ?K2 and s = ?S,
         THEN conjunct2, THEN conjunct2, THEN conjunct2, THEN conjunct2,
         THEN conjunct1] h2
    by simp
  have c: "fst (ModuleDetailView_get example_conf ?K3 (as_view ?S)) = Inl Http404"
    using C3_miss_is_not_found
        [where conf = example_conf and kw = ?K3 and s = ?S and pv = v2_0,
         THEN conjunct2, THEN conjunct2, THEN conjunct2, THEN conjunct2,
         THEN conjunct2, THEN conjunct1] h3
    by simp
  have "kc_object ?kc \<in> set (klasses ?S)"
    using C3_miss_is_not_found
        [where conf = example_conf and kw = ?K4 and s = ?S and c = ?kc,
         THEN conjunct2, THEN conjunct2, THEN conjunct2, THEN conjunct1]
      h4
    by simp
  then have d: "C_2_0 \<in> set (klasses ?S)" by simp
  have "mc_object ?mc \<in> set (modules ?S)"
    using C3_miss_is_not_found
        [where conf = example_conf and kw = ?K4 and s = ?S and c' = ?mc,
         THEN conjunct2, THEN conjunct2, THEN conjunct2, THEN conjunct2,
         THEN conjunct2, THEN conjunct2, THEN conjunct2, THEN conjunct2,
         THEN conjunct2, THEN conjunct2] h5
    by simp
  then have e: "m_2_0 \<in> set (modules ?S)" by simp
  have f: "fst (KlassDetailView_get example_conf ?K5 (as_view store_case_twins)) =
             Inl (MultipleObjectsReturned KlassModel)"
    using C3_miss_is_not_found
        [where conf = example_conf and kw = ?K5 and s = store_case_twins,
         THEN conjunct2, THEN conjunct1] h6
    by simp
  have g: "fst (ModuleDetailView_get example_conf ?K6 (as_view store_package_twins)) =
             Inl (MultipleObjectsReturned ProjectVersionModel)"
    using C3_miss_is_not_found
        [where conf = example_conf and kw = ?K6 and s = store_package_twins
           and e' = "MultipleObjectsReturned ProjectVersionModel",
         THEN conjunct2, THEN conjunct2, THEN conjunct2, THEN conjunct2,
         THEN conjunct2, THEN conjunct2, THEN conjunct2, THEN conjunct1] h7
    by simp
  have h: "fst (ModuleDetailView_get example_conf ?K7 (as_view store_module_twins)) =
             Inl (MultipleObjectsReturned ModuleModel)"
    using C3_miss_is_not_found
        [where conf = example_conf and kw = ?K7 and s = store_module_twins
           and e' = "MultipleObjectsReturned ModuleModel",
         THEN conjunct2, THEN conjunct2, THEN conjunct2, THEN conjunct2,
         THEN conjunct2, THEN conjunct2, THEN conjunct2, THEN conjunct1] h8
    by simp
  have i: "fst (ModuleDetailView_get example_conf ?K8 (as_view ?S)) = Inr ?mc"
    using C3_miss_is_not_found
        [where conf = example_conf and kw = ?K8 and s = ?S and pv = v2_0 and m = m_2_0,
         THEN conjunct2, THEN conjunct2, THEN conjunct2, THEN conjunct2,
         THEN conjunct2, THEN conjunct2, THEN conjunct2, THEN conjunct2,
         THEN conjunct1] h9 l
    by simp
  have j: "fst (ModuleDetailView_get example_conf ?K9 (as_view ?S)) =
             Inr \<lparr>mc_object = m_2_0, mc_project_version = v2_0, mc_klass_list = [C_2_0],
                  mc_push_state_url = Some ''/Django/2.0/m/''\<rparr>"
    using C3_miss_is_not_found
        [where conf = example_conf and kw = ?K9 and s = ?S and pv = v2_0 and m = m_2_0,
         THEN conjunct2, THEN conjunct2, THEN conjunct2, THEN conjunct2,
         THEN conjunct2, THEN conjunct2, THEN conjunct2, THEN conjunct2,
         THEN conjunct2, THEN conjunct1] h10 l u
    by simp
  from a b c d e f g h i j show ?thesis by (intro conjI)
qed

text \<open>
  Claim C4, at the failing input. The store holds the package \<open>Django\<close>; the request
  names \<open>django\<close>, version \<open>1.0\<close>, module \<open>m\<close>. No version has that exact package
  name, the version is found by the case-insensitive query of \<open>get\<close>, the module is
  then found by \<open>get_precise_object\<close> within that version, and the page succeeds with
  \<open>push_state_url\<close> \<open>None\<close>: the case mismatch of the package is not reported.
\<close>

theorem C4_module_page_drops_version_mismatch:
  "filter (\<lambda>v. version_number v = ''1.0'' \<and> project_name (pv_project v) = ''django'')
     (project_versions store_two_versions) = [] \<and>
   filter (pv_fuzzy (example_kwargs ''django'' ''1.0'' ''m'' []))
     (project_versions store_two_versions) = [v1_0] \<and>
   fst (ModuleDetailView_get example_conf (example_kwargs ''django'' ''1.0'' ''m'' [])
         (as_view store_two_versions)) =
     Inr \<lparr>mc_object = m_1_0, mc_project_version = v1_0, mc_klass_list = [C_1_0],
          mc_push_state_url = None\<rparr>"
  by (simp add: example_defs view_defs)

lemma sitemap_key_le_iff: "sitemap_key a \<le> sitemap_key b \<longleftrightarrow> sitemap_order a b"
  by (auto simp: sitemap_key_def sitemap_order_def Let_def)

lemma sorted_wrt_sitemap_order: "sorted_wrt sitemap_order (sort_key sitemap_key ks)"
proof -
  have "sorted (map sitemap_key (sort_key sitemap_key ks))"
    by (rule sorted_sort_key)
  then have "sorted_wrt (\<lambda>a b. sitemap_key a \<le> sitemap_key b) (sort_key sitemap_key ks)"
    by (simp add: sorted_map)
  then show ?thesis
    by (simp add: sitemap_key_le_iff)
qed

lemma sort_key_head:
  assumes "sort_key f xs = v # rest"
  shows "v \<in> set xs \<and> (\<forall>u\<in>set xs. f v \<le> f u)"
proof -
  have s: "set (v # rest) = set xs"
    using set_sort [of f xs] assms by simp
  have "sorted (map f (v # rest))"
    using sorted_sort_key [of f xs] assms by simp
  then have "\<forall>u\<in>set rest. f v \<le> f u" by simp
  then have "\<forall>u\<in>set (v # rest). f v \<le> f u" by simp
  with s show ?thesis by auto
qed

lemma sort_key_Nil_iff: "sort_key f xs = [] \<longleftrightarrow> xs = []"
  using length_sort [of f xs] by (metis length_0_conv)

lemma get_latest_Inr:
  assumes "get_latest s name = Inr v"
  shows "v \<in> set (project_versions s) \<and> project_name (pv_project v) = name \<and>
         (\<forall>u\<in>set (project_versions s). project_name (pv_project u) = name \<longrightarrow>
            sortable_version_number u \<le> sortable_version_number v)"
proof -
  let ?vs = "filter (\<lambda>v. project_name (pv_project v) = name) (project_versions s)"
  let ?f = "\<lambda>v. - int (sortable_version_number v)"
  from assms obtain rest where "sort_key ?f ?vs = v # rest"
    by (auto simp: get_latest_def split: list.splits)
  from sort_key_head [OF this]
  have "v \<in> set ?vs" and m: "\<forall>u\<in>set ?vs. ?f v \<le> ?f u" by blast+
  then show ?thesis by auto
qed

lemma get_latest_DoesNotExist_iff:
  "get_latest s name = Inl (DoesNotExist ProjectVersionModel) \<longleftrightarrow>
     (\<forall>u\<in>set (project_versions s). project_name (pv_project u) \<noteq> name)"
proof -
  let ?vs = "filter (\<lambda>v. project_name (pv_project v) = name) (project_versions s)"
  let ?f = "\<lambda>v. - int (sortable_version_number v)"
  have "get_latest s name = Inl (DoesNotExist ProjectVersionModel) \<longleftrightarrow> sort_key ?f ?vs = []"
    by (simp add: get_latest_def split: list.splits)
  also have "\<dots> \<longleftrightarrow> ?vs = []"
    by (rule sort_key_Nil_iff)
  also have "\<dots> \<longleftrightarrow> (\<forall>u\<in>set (project_versions s). project_name (pv_project u) \<noteq> name)"
    by (simp add: filter_empty_conv)
  finally show ?thesis .
qed

lemma get_latest_total:
  "(\<exists>v. get_latest s name = Inr v) \<or> get_latest s name = Inl (DoesNotExist ProjectVersionModel)"
  by (auto simp: get_latest_def split: list.splits)

text \<open>
  Claim C5. When the package Django has a latest version, the sitemap is the home entry
  with priority 1.0 followed by one entry for every class of the store, each class once,
  in the order package name ascending, sortable version number descending, module name
  ascending, class name ascending; the priority of a class is 0.9 when its version is
  the latest version of Django and 0.5 otherwise. For the store with the versions 1.0
  and 2.0, one module and one class each, the sitemap is the home entry, the class of
  2.0 with 0.9 and the class of 1.0 with 0.5, in that order.
\<close>

theorem C5_sitemap_order_and_priorities:
  "(get_latest s ''Django'' = Inr latest \<longrightarrow>
      (\<exists>ks. fst (Sitemap_get_context_data conf (as_view s)) =
               Inr (\<lparr>location = reverse conf ''home'' Map.empty, priority = 1\<rparr> #
                    map (\<lambda>k. \<lparr>location = Klass_get_absolute_url conf k,
                               priority =
                                 (if pv_pk (module_project_version (klass_module k)) =
                                     pv_pk latest
                                  then 9 / 10 else 1 / 2)\<rparr>) ks) \<and>
             mset ks = mset (klasses s) \<and>
             sorted_wrt sitemap_order ks)) \<and>
   fst (Sitemap_get_context_data conf (as_view store_two_versions)) =
     Inr [\<lparr>location = reverse conf ''home'' Map.empty, priority = 1\<rparr>,
          \<lparr>location = Klass_get_absolute_url conf C_2_0, priority = 9 / 10\<rparr>,
          \<lparr>location = Klass_get_absolute_url conf C_1_0, priority = 1 / 2\<rparr>]"
proof (intro conjI impI)
  assume l: "get_latest s ''Django'' = Inr latest"
  let ?ks = "sort_key sitemap_key (klasses s)"
  have "fst (Sitemap_get_context_data conf (as_view s)) =
          Inr (\<lparr>location = reverse conf ''home'' Map.empty, priority = 1\<rparr> #
               map (\<lambda>k. \<lparr>location = Klass_get_absolute_url conf k,
                          priority =
                            (if pv_pk (module_project_version (klass_module k)) = pv_pk latest
                             then 9 / 10 else 1 / 2)\<rparr>) ?ks)"
    using l by (simp add: Sitemap_get_context_data_def as_view_def sitemap_entry_def pv_eq_def)
  moreover have "mset ?ks = mset (klasses s)"
    by simp
  moreover have "sorted_wrt sitemap_order ?ks"
    by (rule sorted_wrt_sitemap_order)
  ultimately show "\<exists>ks. fst (Sitemap_get_context_data conf (as_view s)) =
               Inr (\<lparr>location = reverse conf ''home'' Map.empty, priority = 1\<rparr> #
                    map (\<lambda>k. \<lparr>location = Klass_get_absolute_url conf k,
                               priority =
                                 (if pv_pk (module_project_version (klass_module k)) =
                                     pv_pk latest
                                  then 9 / 10 else 1 / 2)\<rparr>) ks) \<and>
             mset ks = mset (klasses s) \<and>
             sorted_wrt sitemap_order ks"
    by blast
next
  show "fst (Sitemap_get_context_data conf (as_view store_two_versions)) =
     Inr [\<lparr>location = reverse conf ''home'' Map.empty, priority = 1\<rparr>,
          \<lparr>location = Klass_get_absolute_url conf C_2_0, priority = 9 / 10\<rparr>,
          \<lparr>location = Klass_get_absolute_url conf C_1_0, priority = 1 / 2\<rparr>]"
    by (simp add: example_defs view_defs)
qed

theorem C5_sitemap_order_and_priorities_witness:
  "get_latest store_two_versions ''Django'' = Inr v2_0 \<and>
   (\<exists>ks. fst (Sitemap_get_context_data example_conf (as_view store_two_versions)) =
               Inr (\<lparr>location = ''/'', priority = 1\<rparr> #
                    map (\<lambda>k. \<lparr>location = Klass_get_absolute_url example_conf k,
                               priority =
                                 (if pv_pk (module_project_version (klass_module k)) = 2
                                  then 9 / 10 else 1 / 2)\<rparr>) ks) \<and>
          mset ks = mset [C_1_0, C_2_0] \<and>
          sorted_wrt sitemap_order ks)"
proof -
  have h: "get_latest store_two_versions ''Django'' = Inr v2_0"
    by (simp add: example_defs view_defs)
  have r: "reverse example_conf ''home'' Map.empty = ''/''"
    by (simp add: example_conf_def)
  have p: "pv_pk v2_0 = 2"
    by (simp add: v2_0_def)
  have k: "klasses store_two_versions = [C_1_0, C_2_0]"
    by (simp add: store_two_versions_def)
  from C5_sitemap_order_and_priorities [of store_two_versions v2_0 example_conf] h
  have "\<exists>ks. fst (Sitemap_get_context_data example_conf (as_view store_two_versions)) =
               Inr (\<lparr>location = reverse example_conf ''home'' Map.empty, priority = 1\<rparr> #
                    map (\<lambda>k. \<lparr>location = Klass_get_absolute_url example_conf k,
                               priority =
                                 (if pv_pk (module_project_version (klass_module k)) =
                                     pv_pk v2_0
                                  then 9 / 10 else 1 / 2)\<rparr>) ks) \<and>
             mset ks = mset (klasses store_two_versions) \<and>
             sorted_wrt sitemap_order ks"
    by blast
  then show ?thesis
    unfolding r p k using h by blast
qed

text \<open>
  Claim C6. \<open>get_latest\<close> returns a version of the named package whose sortable
  version number is the greatest among the versions of that package, and it fails with
  \<open>DoesNotExist\<close> exactly when the package has no version, which includes a package
  that does not exist. With the versions 1.9, 1.10 and 2.0 it returns 2.0; with 1.9 and
  1.10 alone it returns 1.10, although the string \<open>1.10\<close> is below \<open>1.9\<close>.
\<close>

theorem C6_get_latest_is_max_sortable:
  "(get_latest s name = Inr v \<longrightarrow>
      v \<in> set (project_versions s) \<and> project_name (pv_project v) = name \<and>
      (\<forall>u\<in>set (project_versions s). project_name (pv_project u) = name \<longrightarrow>
         sortable_version_number u \<le> sortable_version_number v)) \<and>
   (get_latest s name = Inl (DoesNotExist ProjectVersionModel) \<longleftrightarrow>
      (\<forall>u\<in>set (project_versions s). project_name (pv_project u) \<noteq> name)) \<and>
   ((\<exists>v'. get_latest s name = Inr v') \<or>
      get_latest s name = Inl (DoesNotExist ProjectVersionModel)) \<and>
   get_latest store_three_versions ''Django'' = Inr v2_0 \<and>
   version_number v2_0 = ''2.0'' \<and>
   get_latest store_minor_versions ''Django'' = Inr v1_10 \<and>
   version_number v1_10 < version_number v1_9 \<and>
   get_latest store_three_versions ''Flask'' = Inl (DoesNotExist ProjectVersionModel)"
proof (intro conjI)
  show "get_latest s name = Inr v \<longrightarrow>
      v \<in> set (project_versions s) \<and> project_name (pv_project v) = name \<and>
      (\<forall>u\<in>set (project_versions s). project_name (pv_project u) = name \<longrightarrow>
         sortable_version_number u \<le> sortable_version_number v)"
    using get_latest_Inr [of s name v] by blast
  show "get_latest s name = Inl (DoesNotExist ProjectVersionModel) \<longleftrightarrow>
      (\<forall>u\<in>set (project_versions s). project_name (pv_project u) \<noteq> name)"
    by (rule get_latest_DoesNotExist_iff)
  show "(\<exists>v'. get_latest s name = Inr v') \<or>
      get_latest s name = Inl (DoesNotExist ProjectVersionModel)"
    by (rule get_latest_total)
  show "get_latest store_three_versions ''Django'' = Inr v2_0"
    by (simp add: example_defs view_defs)
  show "version_number v2_0 = ''2.0''"
    by (simp add: v2_0_def)
  show "get_latest store_minor_versions ''Django'' = Inr v1_10"
    by (simp add: example_defs view_defs)
  show "version_number v1_10 < version_number v1_9"
    by (simp add: v1_10_def v1_9_def less_char_def)
  show "get_latest store_three_versions ''Flask'' = Inl (DoesNotExist ProjectVersionModel)"
    by (simp add: example_defs view_defs)
qed

theorem C6_get_latest_is_max_sortable_witness:
  "get_latest store_three_versions ''Django'' = Inr v2_0 \<and>
   v2_0 \<in> set (project_versions store_three_versions) \<and>
   project_name (pv_project v2_0) = ''Django'' \<and>
   sortable_version_number v1_9 \<le> sortable_version_number v2_0 \<and>
   sortable_version_number v1_10 \<le> sortable_version_number v2_0"
proof -
  have h: "get_latest store_three_versions ''Django'' = Inr v2_0"
    by (simp add: example_defs view_defs)
  have m: "v1_9 \<in> set (project_versions store_three_versions) \<and>
           v1_10 \<in> set (project_versions store_three_versions) \<and>
           project_name (pv_project v1_9) = ''Django'' \<and>
           project_name (pv_project v1_10) = ''Django''"
    by (simp add: example_defs)
  from C6_get_latest_is_max_sortable [of store_three_versions "''Django''" v2_0] h
  have "v2_0 \<in> set (project_versions store_three_versions) \<and>
        project_name (pv_project v2_0) = ''Django'' \<and>
        (\<forall>u\<in>set (project_versions store_three_versions).
           project_name (pv_project u) = ''Django'' \<longrightarrow>
           sortable_version_number u \<le> sortable_version_number v2_0)"
    by blast
  with h m show ?thesis by blast
qed

lemma get_latest_for_name_Inl:
  "get_latest_for_name s c p = Inl e \<Longrightarrow> e = DoesNotExist KlassModel"
  by (auto simp: get_latest_for_name_def split: list.splits)

lemma get_latest_for_name_Inr:
  assumes "get_latest_for_name s c p = Inr k"
  shows "k \<in> set (klasses s) \<and> iexact (klass_name k) c \<and>
         (\<exists>latest\<in>set (project_versions s).
            pv_pk (module_project_version (klass_module k)) = pv_pk latest \<and>
            iexact (project_name (pv_project latest)) p \<and>
            (\<forall>u\<in>set (project_versions s).
               iexact (project_name (pv_project u)) p \<longrightarrow>
               sortable_version_number u \<le> sortable_version_number latest))"
proof -
  let ?vs = "filter (\<lambda>v. iexact (project_name (pv_project v)) p) (project_versions s)"
  let ?f = "\<lambda>v. - int (sortable_version_number v)"
  from assms obtain latest rest where v: "sort_key ?f ?vs = latest # rest"
    by (auto simp: get_latest_for_name_def split: list.splits)
  let ?ks = "filter (\<lambda>k. iexact (klass_name k) c \<and>
                          pv_eq (module_project_version (klass_module k)) latest) (klasses s)"
  from assms v obtain others where "?ks = k # others"
    by (auto simp: get_latest_for_name_def split: list.splits)
  then have "k \<in> set ?ks" by simp
  then have k: "k \<in> set (klasses s) \<and> iexact (klass_name k) c \<and>
                pv_pk (module_project_version (klass_module k)) = pv_pk latest"
    by (simp add: pv_eq_def)
  from sort_key_head [OF v]
  have "latest \<in> set ?vs" and "\<forall>u\<in>set ?vs. ?f latest \<le> ?f u" by blast+
  then have "latest \<in> set (project_versions s) \<and>
             iexact (project_name (pv_project latest)) p \<and>
             (\<forall>u\<in>set (project_versions s).
                iexact (project_name (pv_project u)) p \<longrightarrow>
                sortable_version_number u \<le> sortable_version_number latest)"
    by auto
  with k show ?thesis by blast
qed

lemma LatestKlassDetailView_get_eq:
  "LatestKlassDetailView_get conf kw w =
     (case get_latest_for_name (db w) (kw_klass kw) (kw_package kw) of
        Inr k \<Rightarrow>
          (Inr \<lparr>kc_object = k, kc_push_state_url = Some (Klass_get_absolute_url conf k)\<rparr>,
           w\<lparr>self_push_state_url := Some (Klass_get_absolute_url conf k)\<rparr>)
      | Inl e \<Rightarrow> (Inl Http404, w))"
  by (auto simp: LatestKlassDetailView_get_def LatestKlassDetailView_get_object_def
      LatestKlassDetailView_get_precise_object_def LatestKlassDetailView_get_fuzzy_object_def
      KlassDetailView_get_context_data_def
      split: sum.splits dest: get_latest_for_name_Inl)

text \<open>
  Claim C7. The page of a class by name in the latest version makes no exact lookup:
  its \<open>get_precise_object\<close> raises \<open>DoesNotExist\<close> on every input. Its result is
  that of the one query \<open>get_latest_for_name\<close> on the class name and the package name
  of the request; the version and the module of the request play no part. The class
  found has the given name up to case and lies in a version of the package, named up to
  case, whose sortable version number is greatest; when the query finds nothing the
  page fails with \<open>Http404\<close>.
\<close>

theorem C7_latest_klass_single_fuzzy_query:
  "LatestKlassDetailView_get_precise_object kw w = Inl (DoesNotExist KlassModel) \<and>
   fst (LatestKlassDetailView_get conf kw w) =
     (case get_latest_for_name (db w) (kw_klass kw) (kw_package kw) of
        Inr k \<Rightarrow>
          Inr \<lparr>kc_object = k, kc_push_state_url = Some (Klass_get_absolute_url conf k)\<rparr>
      | Inl e \<Rightarrow> Inl Http404) \<and>
   (kw_klass kw' = kw_klass kw \<and> kw_package kw' = kw_package kw \<longrightarrow>
      LatestKlassDetailView_get conf kw' w = LatestKlassDetailView_get conf kw w) \<and>
   (get_latest_for_name s c p = Inr k \<longrightarrow>
      k \<in> set (klasses s) \<and> iexact (klass_name k) c \<and>
      (\<exists>latest\<in>set (project_versions s).
         pv_pk (module_project_version (klass_module k)) = pv_pk latest \<and>
         iexact (project_name (pv_project latest)) p \<and>
         (\<forall>u\<in>set (project_versions s).
            iexact (project_name (pv_project u)) p \<longrightarrow>
            sortable_version_number u \<le> sortable_version_number latest)))"
proof (intro conjI)
  show "LatestKlassDetailView_get_precise_object kw w = Inl (DoesNotExist KlassModel)"
    by (simp add: LatestKlassDetailView_get_precise_object_def)
  show "fst (LatestKlassDetailView_get conf kw w) =
     (case get_latest_for_name (db w) (kw_klass kw) (kw_package kw) of
        Inr k \<Rightarrow>
          Inr \<lparr>kc_object = k, kc_push_state_url = Some (Klass_get_absolute_url conf k)\<rparr>
      | Inl e \<Rightarrow> Inl Http404)"
    by (simp add: LatestKlassDetailView_get_eq split: sum.splits)
  show "kw_klass kw' = kw_klass kw \<and> kw_package kw' = kw_package kw \<longrightarrow>
      LatestKlassDetailView_get conf kw' w = LatestKlassDetailView_get conf kw w"
    by (simp add: LatestKlassDetailView_get_eq)
  show "get_latest_for_name s c p = Inr k \<longrightarrow>
      k \<in> set (klasses s) \<and> iexact (klass_name k) c \<and>
      (\<exists>latest\<in>set (project_versions s).
         pv_pk (module_project_version (klass_module k)) = pv_pk latest \<and>
         iexact (project_name (pv_project latest)) p \<and>
         (\<forall>u\<in>set (project_versions s).
            iexact (project_name (pv_project u)) p \<longrightarrow>
            sortable_version_number u \<le> sortable_version_number latest))"
    using get_latest_for_name_Inr [of s c p k] by blast
qed

theorem C7_latest_klass_single_fuzzy_query_witness:
  "LatestKlassDetailView_get example_conf (example_kwargs ''django'' ''0.1'' ''nowhere'' ''c'')
       (as_view store_two_versions) =
     LatestKlassDetailView_get example_conf (example_kwargs ''django'' [] [] ''c'')
       (as_view store_two_versions) \<and>
   get_latest_for_name store_two_versions ''c'' ''django'' = Inr C_2_0 \<and>
   C_2_0 \<in> set (klasses store_two_versions) \<and> iexact (klass_name C_2_0) ''c'' \<and>
   fst (LatestKlassDetailView_get example_conf (example_kwargs ''django'' [] [] ''nothing'')
       (as_view store_two_versions)) = Inl Http404"
proof -
  let ?S = store_two_versions
  let ?K = "example_kwargs ''django'' [] [] ''c''"
  let ?K' = "example_kwargs ''django'' ''0.1'' ''nowhere'' ''c''"
  let ?N = "example_kwargs ''django'' [] [] ''nothing''"
  have h1: "kw_klass ?K' = kw_klass ?K \<and> kw_package ?K' = kw_package ?K"
    by (simp add: example_kwargs_def)
  have h2: "get_latest_for_name ?S ''c'' ''django'' = Inr C_2_0"
    by (simp add: example_defs view_defs)
  have h3: "get_latest_for_name (db (as_view ?S)) (kw_klass ?N) (kw_package ?N) =
              Inl (DoesNotExist KlassModel)"
    by (simp add: example_defs view_defs)
  have a: "LatestKlassDetailView_get example_conf ?K' (as_view ?S) =
           LatestKlassDetailView_get example_conf ?K (as_view ?S)"
    using C7_latest_klass_single_fuzzy_query [of ?K "as_view ?S" example_conf ?K'] h1
    by blast
  have b: "C_2_0 \<in> set (klasses ?S) \<and> iexact (klass_name C_2_0) ''c''"
    using C7_latest_klass_single_fuzzy_query [of ?K "as_view ?S" example_conf ?K' ?S
        "''c''" "''django''" C_2_0] h2
    by blast
  have "fst (LatestKlassDetailView_get example_conf ?N (as_view ?S)) =
          (case get_latest_for_name (db (as_view ?S)) (kw_klass ?N) (kw_package ?N) of
             Inr k \<Rightarrow>
               Inr \<lparr>kc_object = k,
                    kc_push_state_url = Some (Klass_get_absolute_url example_conf k)\<rparr>
           | Inl e \<Rightarrow> Inl Http404)"
    using C7_latest_klass_single_fuzzy_query [of ?N "as_view ?S" example_conf] by blast
  then have c: "fst (LatestKlassDetailView_get example_conf ?N (as_view ?S)) = Inl Http404"
    by (simp add: h3)
  from a b c h2 show ?thesis by blast
qed

text \<open>
  Claim C8, as stated, fails: the version page does not compare the package name
  exactly. No version of the store has the package name \<open>django\<close>, and the request
  for \<open>django\<close> 1.0 resolves to the version 1.0 of \<open>Django\<close>.
\<close>

theorem C8_counterexample:
  "filter (\<lambda>v. version_number v = ''1.0'' \<and> project_name (pv_project v) = ''django'')
     (project_versions store_two_versions) = [] \<and>
   fst (VersionDetailView_get (example_kwargs ''django'' ''1.0'' [] [])
         (as_view store_two_versions)) =
     Inr \<lparr>object_list = [C_1_0], projectversion = v1_0\<rparr>"
  by (simp add: example_defs view_defs)

lemma VersionDetailView_get_of_eq:
  "VersionDetailView_get_of gpv kw w =
     (case gpv kw w of
        Inl e \<Rightarrow>
          (if e = DoesNotExist ProjectVersionModel then (Inl Http404, w) else (Inl e, w))
      | Inr pv \<Rightarrow>
          (Inr \<lparr>object_list =
                  filter (\<lambda>k. pv_pk (module_project_version (klass_module k)) = pv_pk pv)
                    (klasses (db w)),
                projectversion = pv\<rparr>,
           w\<lparr>self_project_version := Some pv\<rparr>))"
  by (simp add: VersionDetailView_get_of_def VersionDetailView_get_context_data_def pv_eq_def
      Let_def split: sum.splits)

text \<open>
  Claim C8, amended. The version page resolves its version by the package name and the
  version number compared without case: when exactly one version matches, the context
  holds that version and the list of all classes of the store that belong to it, and
  when none matches the page fails with \<open>Http404\<close>. The home page resolves the latest
  version of the package \<open>Django\<close>, with the same context, and fails with \<open>Http404\<close>
  when \<open>get_latest\<close> raises \<open>DoesNotExist\<close>.
\<close>

theorem C8_version_page_case_insensitive:
  "(filter (pv_fuzzy kw) (project_versions s) = [pv] \<longrightarrow>
      fst (VersionDetailView_get kw (as_view s)) =
        Inr \<lparr>object_list =
               filter (\<lambda>k. pv_pk (module_project_version (klass_module k)) = pv_pk pv)
                 (klasses s),
             projectversion = pv\<rparr>) \<and>
   (filter (pv_fuzzy kw) (project_versions s) = [] \<longrightarrow>
      fst (VersionDetailView_get kw (as_view s)) = Inl Http404) \<and>
   (get_latest s ''Django'' = Inr pv' \<longrightarrow>
      fst (HomeView_get kw (as_view s)) =
        Inr \<lparr>object_list =
               filter (\<lambda>k. pv_pk (module_project_version (klass_module k)) = pv_pk pv')
                 (klasses s),
             projectversion = pv'\<rparr>) \<and>
   (get_latest s ''Django'' = Inl (DoesNotExist ProjectVersionModel) \<longrightarrow>
      fst (HomeView_get kw (as_view s)) = Inl Http404)"
  by (simp add: VersionDetailView_get_def HomeView_get_def VersionDetailView_get_of_eq
      VersionDetailView_get_project_version_def HomeView_get_project_version_def as_view_def)

theorem C8_version_page_case_insensitive_witness:
  "fst (VersionDetailView_get (example_kwargs ''DJANGO'' ''2.0'' [] [])
         (as_view store_two_versions)) =
     Inr \<lparr>object_list = [C_2_0], projectversion = v2_0\<rparr> \<and>
   fst (VersionDetailView_get (example_kwargs ''Django'' ''3.0'' [] [])
         (as_view store_two_versions)) = Inl Http404 \<and>
   fst (HomeView_get (example_kwargs [] [] [] []) (as_view store_two_versions)) =
     Inr \<lparr>object_list = [C_2_0], projectversion = v2_0\<rparr> \<and>
   fst (HomeView_get (example_kwargs [] [] [] [])
         (as_view \<lparr>project_versions = [], modules = [], klasses = []\<rparr>)) = Inl Http404"
proof -
  let ?S = store_two_versions
  let ?E = "\<lparr>project_versions = [], modules = [], klasses = []\<rparr>"
  let ?K1 = "example_kwargs ''DJANGO'' ''2.0'' [] []"
  let ?K2 = "example_kwargs ''Django'' ''3.0'' [] []"
  let ?K0 = "example_kwargs [] [] [] []"
  have h1: "filter (pv_fuzzy ?K1) (project_versions ?S) = [v2_0]"
    by (simp add: example_defs view_defs)
  have h2: "filter (pv_fuzzy ?K2) (project_versions ?S) = []"
    by (simp add: example_defs view_defs)
  have h3: "get_latest ?S ''Django'' = Inr v2_0"
    by (simp add: example_defs view_defs)
  have h4: "get_latest ?E ''Django'' = Inl (DoesNotExist ProjectVersionModel)"
    by (simp add: get_latest_def)
  have l: "filter (\<lambda>k. pv_pk (module_project_version (klass_module k)) = pv_pk v2_0)
             (klasses ?S) = [C_2_0]"
    by (simp add: example_defs)
  have a: "fst (VersionDetailView_get ?K1 (as_view ?S)) =
             Inr \<lparr>object_list = [C_2_0], projectversion = v2_0\<rparr>"
    using C8_version_page_case_insensitive [of ?K1 ?S v2_0] h1 l by simp
  have b: "fst (VersionDetailView_get ?K2 (as_view ?S)) = Inl Http404"
    using C8_version_page_case_insensitive [of ?K2 ?S] h2 by blast
  have c: "fst (HomeView_get ?K0 (as_view ?S)) =
             Inr \<lparr>object_list = [C_2_0], projectversion = v2_0\<rparr>"
    using C8_version_page_case_insensitive [of ?K0 ?S _ v2_0] h3 l by simp
  have d: "fst (HomeView_get ?K0 (as_view ?E)) = Inl Http404"
    using C8_version_page_case_insensitive [of ?K0 ?E] h4 by blast
  from a b c d show ?thesis by (intro conjI)
qed

text \<open>
  Claim C10. Whenever the page of a class by name in the latest version succeeds, the
  \<open>push_state_url\<close> of its context is the canonical URL of the class found, whatever
  the view instance held before; this includes a request whose names equal the stored
  ones exactly.
\<close>

theorem C10_latest_klass_always_sets_hint:
  assumes "fst (LatestKlassDetailView_get conf kw w) = Inr c"
  shows "kc_push_state_url c = Some (Klass_get_absolute_url conf (kc_object c))"
  using assms by (auto simp: LatestKlassDetailView_get_eq split: sum.splits)

theorem C10_latest_klass_always_sets_hint_witness:
  "klass_name C_2_0 = ''C'' \<and>
   project_name (pv_project (module_project_version (klass_module C_2_0))) = ''Django'' \<and>
   fst (LatestKlassDetailView_get example_conf (example_kwargs ''Django'' [] [] ''C'')
         (as_view store_two_versions)) =
     Inr \<lparr>kc_object = C_2_0, kc_push_state_url = Some ''/Django/2.0/m/C/''\<rparr> \<and>
   kc_push_state_url \<lparr>kc_object = C_2_0, kc_push_state_url = Some ''/Django/2.0/m/C/''\<rparr> =
     Some (Klass_get_absolute_url example_conf C_2_0)"
proof -
  let ?c = "\<lparr>kc_object = C_2_0, kc_push_state_url = Some ''/Django/2.0/m/C/''\<rparr>"
  have h: "fst (LatestKlassDetailView_get example_conf (example_kwargs ''Django'' [] [] ''C'')
         (as_view store_two_versions)) = Inr ?c"
    by (simp add: example_defs view_defs)
  have n: "klass_name C_2_0 = ''C'' \<and>
     project_name (pv_project (module_project_version (klass_module C_2_0))) = ''Django''"
    by (simp add: example_defs)
  from C10_latest_klass_always_sets_hint [OF h]
  have "kc_push_state_url ?c = Some (Klass_get_absolute_url example_conf (kc_object ?c))" .
  then have "kc_push_state_url ?c = Some (Klass_get_absolute_url example_conf C_2_0)"
    by simp
  with h n show ?thesis by blast
qed

end
